theory Spec2Isabelle
  imports Complex_Main "HOL-Library.Word"
begin

section \<open>Numbers\<close>

text \<open>
  The C++ type \<^verbatim>\<open>double\<close> is modelled by \<^typ>\<open>real\<close>: arithmetic is exact, rounding
  is left out. Arguments of the modelled functions range over finite values. Where the
  source divides by a value that nothing guards against zero, the IEEE result (an
  infinity or a NaN) is written out with the type \<open>double\<close> below, since HOL's
  \<open>x / 0 = 0\<close> is not what the program computes. Zero is unsigned in \<^typ>\<open>real\<close>, so a
  zero divisor is read as \<open>+0\<close>.

  All identifier indices and counts are \<^verbatim>\<open>unsigned int\<close> in the source: 32-bit words.
\<close>

type_synonym uint = "32 word"

datatype double = Finite real | PlusInf | MinusInf | NaN

definition ddiv :: "real \<Rightarrow> real \<Rightarrow> double" where
  "ddiv a b =
     (if b \<noteq> 0 then Finite (a / b)
      else if a > 0 then PlusInf else if a < 0 then MinusInf else NaN)"

text \<open>The expression \<^verbatim>\<open>1. / x\<close> on a value that may already be infinite or NaN.\<close>

fun dinv :: "double \<Rightarrow> double" where
  "dinv (Finite r) = ddiv 1 r"
| "dinv PlusInf = Finite 0"
| "dinv MinusInf = Finite 0"
| "dinv NaN = NaN"

section \<open>Third-plane slope\<close>

text \<open>
  \<^verbatim>\<open>GeometryCore::ComputeThirdPlaneSlope\<close> (GeometryCore.cxx). The early return, the
  default \<^verbatim>\<open>slope3 = 0.001\<close>, the guarded trigonometric formula and the final inversion
  with its sentinel follow the source line by line.
\<close>

definition ComputeThirdPlaneSlope :: "real \<Rightarrow> real \<Rightarrow> real \<Rightarrow> real \<Rightarrow> real \<Rightarrow> double" where
  "ComputeThirdPlaneSlope angle1 slope1 angle2 slope2 angle3 =
     (if \<bar>slope1\<bar> < 0.001 \<and> \<bar>slope2\<bar> < 0.001 then Finite 0.001
      else
        let slope3 =
          (if \<bar>slope1\<bar> > 0.001 \<and> \<bar>slope2\<bar> > 0.001
           then ddiv ((1 / slope1) * sin (angle3 - angle2) - (1 / slope2) * sin (angle3 - angle1))
                     (sin (angle1 - angle2))
           else Finite 0.001)
        in if slope3 \<noteq> Finite 0 then dinv slope3 else Finite 999)"

section \<open>Identifiers\<close>

text \<open>
  Modelled from the spec: the identifier types \<^verbatim>\<open>geo::CryostatID\<close>, \<^verbatim>\<open>geo::TPCID\<close>,
  \<^verbatim>\<open>geo::PlaneID\<close> and \<^verbatim>\<open>geo::WireID\<close> with their conversions, comparisons and
  constructors (\<^verbatim>\<open>geo_types.h\<close> is missing). They form a containment chain, each adding
  one index to its parent, and carry an explicit validity flag. In the source each struct
  derives from its parent; record extension mirrors the inheritance, and the members keep
  the names under which GeometryCore.cxx reads them.
\<close>

record CryostatID =
  isValid :: bool
  Cryostat :: uint

record TPCID = CryostatID +
  TPC :: uint

record PlaneID = TPCID +
  Plane :: uint

record WireID = PlaneID +
  Wire :: uint

text \<open>The conversions to a base class (\<^verbatim>\<open>asTPCID()\<close> and the implicit slicing).\<close>

definition asCryostatID :: "'a CryostatID_scheme \<Rightarrow> CryostatID" where
  "asCryostatID i = \<lparr>isValid = isValid i, Cryostat = Cryostat i\<rparr>"

definition asTPCID :: "'a TPCID_scheme \<Rightarrow> TPCID" where
  "asTPCID i = \<lparr>isValid = isValid i, Cryostat = Cryostat i, TPC = TPC i\<rparr>"

definition asPlaneID :: "'a PlaneID_scheme \<Rightarrow> PlaneID" where
  "asPlaneID i = \<lparr>isValid = isValid i, Cryostat = Cryostat i, TPC = TPC i, Plane = Plane i\<rparr>"

text \<open>
  The comparison operators: equality is over the chain of indices; the validity flag
  takes no part.
\<close>

definition CryostatID_eq :: "CryostatID \<Rightarrow> CryostatID \<Rightarrow> bool" where
  "CryostatID_eq a b = (Cryostat a = Cryostat b)"

definition TPCID_eq :: "TPCID \<Rightarrow> TPCID \<Rightarrow> bool" where
  "TPCID_eq a b = (CryostatID_eq (asCryostatID a) (asCryostatID b) \<and> TPC a = TPC b)"

definition PlaneID_eq :: "PlaneID \<Rightarrow> PlaneID \<Rightarrow> bool" where
  "PlaneID_eq a b = (TPCID_eq (asTPCID a) (asTPCID b) \<and> Plane a = Plane b)"

definition markInvalid :: "'a CryostatID_scheme \<Rightarrow> 'a CryostatID_scheme" where
  "markInvalid i = i\<lparr>isValid := False\<rparr>"

text \<open>
  The constructors \<^verbatim>\<open>TPCID{c, t}\<close> from plain indices make a valid identifier; the
  constructors from a parent identifier (\<^verbatim>\<open>PlaneID{tpcid, p}\<close>) copy the parent with its
  validity flag.
\<close>

definition TPCID_of :: "uint \<Rightarrow> uint \<Rightarrow> TPCID" where
  "TPCID_of c t = \<lparr>isValid = True, Cryostat = c, TPC = t\<rparr>"

definition TPCID_in :: "'a CryostatID_scheme \<Rightarrow> uint \<Rightarrow> TPCID" where
  "TPCID_in c t = \<lparr>isValid = isValid c, Cryostat = Cryostat c, TPC = t\<rparr>"

definition PlaneID_in :: "'a TPCID_scheme \<Rightarrow> uint \<Rightarrow> PlaneID" where
  "PlaneID_in t p = \<lparr>isValid = isValid t, Cryostat = Cryostat t, TPC = TPC t, Plane = p\<rparr>"

definition WireID_in :: "'a PlaneID_scheme \<Rightarrow> uint \<Rightarrow> WireID" where
  "WireID_in p w =
     \<lparr>isValid = isValid p, Cryostat = Cryostat p, TPC = TPC p, Plane = Plane p, Wire = w\<rparr>"

text \<open>\<^verbatim>\<open>TPCID::InvalidID\<close>, the sentinel index: the largest value of the index type.\<close>

definition TPCID_InvalidID :: uint where
  "TPCID_InvalidID = - 1"

section \<open>The geometry hierarchy\<close>

text \<open>
  Points and displacement vectors (\<^verbatim>\<open>geo::Point_t\<close>, \<^verbatim>\<open>geo::Vector_t\<close>) are triples of
  coordinates; one record serves for both.
\<close>

record Vector_t =
  X :: real
  Y :: real
  Z :: real

type_synonym Point_t = Vector_t

text \<open>
  Modelled from the spec: \<^verbatim>\<open>geo::WireGeo\<close> (WireGeo.h is missing). A wire owns its two
  end points and its centre, in world coordinates; the fields are named after the
  accessors that GeometryCore.cxx and PlaneGeo.h call.
\<close>

record WireGeo =
  GetStart :: Point_t
  GetEnd :: Point_t
  GetCenter :: Point_t

text \<open>
  Modelled from the spec: \<^verbatim>\<open>geo::Decomposer\<close> (Decomposer.h is missing). An oriented frame
  with a reference point, a main and a secondary axis; the normal is their cross product.
\<close>

record Decomposer =
  ReferencePoint :: Point_t
  MainDir :: Vector_t
  SecondaryDir :: Vector_t

text \<open>The data members of \<^verbatim>\<open>geo::PlaneGeo\<close> (PlaneGeo.h) that the modelled functions read.\<close>

record PlaneGeo =
  fWire :: "WireGeo list"
  fWirePitch :: real
  fDecompWire :: Decomposer
  fDecompFrame :: Decomposer
  fID :: PlaneID

text \<open>
  Modelled from the spec: the containers \<^verbatim>\<open>geo::TPCGeo\<close> and \<^verbatim>\<open>geo::CryostatGeo\<close> and the
  optical detector \<^verbatim>\<open>geo::OpDetGeo\<close> (TPCGeo.h, CryostatGeo.h and OpDetGeo.h are missing).
  Each container owns the ordered sequence of its children. Of an optical detector only
  its identity matters here: a label.
\<close>

record TPCGeo =
  fPlanes :: "PlaneGeo list"

datatype OpDetGeo = OpDetGeo string

record CryostatGeo =
  fTPCs :: "TPCGeo list"
  fOpDets :: "OpDetGeo list"

text \<open>\<^verbatim>\<open>fGeoData.cryostats\<close>: the whole hierarchy that GeometryCore owns.\<close>

type_synonym GeometryData_t = "CryostatGeo list"

text \<open>
  The exceptions that the modelled functions throw, one constructor for each
  \<^verbatim>\<open>throw\<close> of the source with the values its message reports,
  \<^verbatim>\<open>InvalidWireError\<close> with the wire number that would be the closest and the number of
  the closest wire that exists, and \<^verbatim>\<open>std::out_of_range\<close> for a checked access outside a
  vector.
\<close>

datatype exception =
    CryostatDoesNotExist uint
  | WireOutOfRange
  | InvalidWireError int int
  | ThirdPlaneSupportsOnly3Planes uint
  | ThirdPlaneTooManyPlanes uint uint
  | ThirdPlaneCannotFindPlane
  | OpDetCryoToOpIDError uint uint
  | OpIDToOpDetCryoError uint
  | std_out_of_range

subsection \<open>PlaneGeo: wire access (PlaneGeo.h)\<close>

definition Nwires :: "PlaneGeo \<Rightarrow> uint" where
  "Nwires p = of_nat (length (fWire p))"

definition PlaneGeo_HasWire :: "PlaneGeo \<Rightarrow> uint \<Rightarrow> bool" where
  "PlaneGeo_HasWire p iwire = (iwire < Nwires p)"

definition PlaneGeo_WirePtr :: "PlaneGeo \<Rightarrow> uint \<Rightarrow> WireGeo option" where
  "PlaneGeo_WirePtr p iwire =
     (if PlaneGeo_HasWire p iwire then Some (fWire p ! unat iwire) else None)"

definition WirePitch :: "PlaneGeo \<Rightarrow> real" where
  "WirePitch p = fWirePitch p"

subsection \<open>Lookups through the hierarchy\<close>

text \<open>
  Modelled from the spec: the element counts and the pointer lookups of
  \<^verbatim>\<open>geo::TPCGeo\<close>, \<^verbatim>\<open>geo::CryostatGeo\<close> and \<^verbatim>\<open>geo::GeometryCore\<close> (TPCGeo.h, CryostatGeo.h and
  GeometryCore.h are missing). A lookup follows the indices of the identifier level by
  level and yields no element as soon as one index is out of range; the validity flag is not
  consulted. A count is the \<^verbatim>\<open>size()\<close> of the vector converted to \<^verbatim>\<open>unsigned int\<close>.
\<close>

definition TPCGeo_Nplanes :: "TPCGeo \<Rightarrow> uint" where
  "TPCGeo_Nplanes t = of_nat (length (fPlanes t))"

definition TPCGeo_PlanePtr :: "TPCGeo \<Rightarrow> uint \<Rightarrow> PlaneGeo option" where
  "TPCGeo_PlanePtr t iplane =
     (if iplane < TPCGeo_Nplanes t then Some (fPlanes t ! unat iplane) else None)"

definition NTPC :: "CryostatGeo \<Rightarrow> uint" where
  "NTPC c = of_nat (length (fTPCs c))"

definition CryostatGeo_TPCPtr :: "CryostatGeo \<Rightarrow> uint \<Rightarrow> TPCGeo option" where
  "CryostatGeo_TPCPtr c itpc = (if itpc < NTPC c then Some (fTPCs c ! unat itpc) else None)"

definition NOpDet :: "CryostatGeo \<Rightarrow> uint" where
  "NOpDet c = of_nat (length (fOpDets c))"

definition CryostatGeo_MaxPlanes :: "CryostatGeo \<Rightarrow> uint" where
  "CryostatGeo_MaxPlanes c = fold (\<lambda>t m. max m (TPCGeo_Nplanes t)) (fTPCs c) 0"

definition Ncryostats :: "GeometryData_t \<Rightarrow> uint" where
  "Ncryostats geo = of_nat (length geo)"

definition HasCryostat :: "GeometryData_t \<Rightarrow> 'a CryostatID_scheme \<Rightarrow> bool" where
  "HasCryostat geo cryoid = (Cryostat cryoid < Ncryostats geo)"

definition CryostatPtr :: "GeometryData_t \<Rightarrow> 'a CryostatID_scheme \<Rightarrow> CryostatGeo option" where
  "CryostatPtr geo cryoid =
     (if HasCryostat geo cryoid then Some (geo ! unat (Cryostat cryoid)) else None)"

definition TPCPtr :: "GeometryData_t \<Rightarrow> 'a TPCID_scheme \<Rightarrow> TPCGeo option" where
  "TPCPtr geo tpcid =
     (case CryostatPtr geo tpcid of
        None \<Rightarrow> None
      | Some pCryo \<Rightarrow> CryostatGeo_TPCPtr pCryo (TPC tpcid))"

definition PlanePtr :: "GeometryData_t \<Rightarrow> 'a PlaneID_scheme \<Rightarrow> PlaneGeo option" where
  "PlanePtr geo planeid =
     (case TPCPtr geo planeid of
        None \<Rightarrow> None
      | Some pTPC \<Rightarrow> TPCGeo_PlanePtr pTPC (Plane planeid))"

definition WirePtr :: "GeometryData_t \<Rightarrow> WireID \<Rightarrow> WireGeo option" where
  "WirePtr geo wireid =
     (case PlanePtr geo wireid of
        None \<Rightarrow> None
      | Some pPlane \<Rightarrow> PlaneGeo_WirePtr pPlane (Wire wireid))"

definition Nplanes :: "GeometryData_t \<Rightarrow> 'a TPCID_scheme \<Rightarrow> uint" where
  "Nplanes geo tpcid = (case TPCPtr geo tpcid of None \<Rightarrow> 0 | Some pTPC \<Rightarrow> TPCGeo_Nplanes pTPC)"

definition HasWire :: "GeometryData_t \<Rightarrow> WireID \<Rightarrow> bool" where
  "HasWire geo wireid =
     (case PlanePtr geo wireid of
        None \<Rightarrow> False
      | Some pPlane \<Rightarrow> PlaneGeo_HasWire pPlane (Wire wireid))"

text \<open>\<^verbatim>\<open>GeometryCore::Cryostat\<close> (GeometryCore.cxx): the lookup that throws.\<close>

definition GeometryCore_Cryostat :: "GeometryData_t \<Rightarrow> 'a CryostatID_scheme \<Rightarrow> exception + CryostatGeo" where
  "GeometryCore_Cryostat geo cryoid =
     (case CryostatPtr geo cryoid of
        Some pCryo \<Rightarrow> Inr pCryo
      | None \<Rightarrow> Inl (CryostatDoesNotExist (Cryostat cryoid)))"

text \<open>
  Modelled from the spec: \<^verbatim>\<open>GeometryCore::WireEndPoints(WireID)\<close>, the overload that returns
  the segment of the two stored end points (GeometryCore.h is missing). It signals an
  out-of-range wire.
\<close>

definition WireEndPoints_Segment :: "GeometryData_t \<Rightarrow> WireID \<Rightarrow> exception + (Point_t \<times> Point_t)" where
  "WireEndPoints_Segment geo wireid =
     (case WirePtr geo wireid of
        None \<Rightarrow> Inl WireOutOfRange
      | Some wire \<Rightarrow> Inr (GetStart wire, GetEnd wire))"

section \<open>Wire intersection\<close>

text \<open>
  \<^verbatim>\<open>GeometryCore::WireIDIntersectionCheck\<close> (GeometryCore.cxx). The four tests in the
  order of the source; the messages sent to the error log are left out.
\<close>

definition WireIDIntersectionCheck :: "GeometryData_t \<Rightarrow> WireID \<Rightarrow> WireID \<Rightarrow> bool" where
  "WireIDIntersectionCheck geo wid1 wid2 =
     (if \<not> TPCID_eq (asTPCID wid1) (asTPCID wid2) then False
      else if Plane wid1 = Plane wid2 then False
      else if \<not> HasWire geo wid1 then False
      else if \<not> HasWire geo wid2 then False
      else True)"

text \<open>
  Modelled from the spec: the result structure \<^verbatim>\<open>geo::WireIDIntersection\<close>
  (\<^verbatim>\<open>geo_types.h\<close> is missing), with the three members \<^verbatim>\<open>y\<close>, \<^verbatim>\<open>z\<close> and \<^verbatim>\<open>TPC\<close> that
  \<open>WireIDsIntersect\<close> assigns. The coordinates can be set to infinity, hence their type.
\<close>

record WireIDIntersection =
  int_y :: double
  int_z :: double
  int_TPC :: uint

text \<open>
  The two helpers \<^verbatim>\<open>IntersectLines\<close> and \<^verbatim>\<open>lar::util::PointWithinSegments\<close> are defined
  outside the source files; \<open>WireIDsIntersect\<close> takes them as parameters. The first
  yields the crossing point of the two lines when there is one (the source writes it
  through two reference arguments and returns \<^verbatim>\<open>true\<close>), the second tells whether a point
  lies within both segments. Their arguments are the (y, z) coordinates of the start and
  the end of the first and of the second wire, in this order.
\<close>

type_synonym IntersectLines_t =
  "real \<Rightarrow> real \<Rightarrow> real \<Rightarrow> real \<Rightarrow> real \<Rightarrow> real \<Rightarrow> real \<Rightarrow> real \<Rightarrow> (real \<times> real) option"

type_synonym PointWithinSegments_t =
  "real \<Rightarrow> real \<Rightarrow> real \<Rightarrow> real \<Rightarrow> real \<Rightarrow> real \<Rightarrow> real \<Rightarrow> real \<Rightarrow> real \<Rightarrow> real \<Rightarrow> bool"

text \<open>
  \<^verbatim>\<open>GeometryCore::WireIDsIntersect(WireID, WireID, WireIDIntersection&)\<close>
  (GeometryCore.cxx). The value is the returned flag together with the structure the
  source fills in; every path assigns all three members.
\<close>

definition WireIDsIntersect ::
  "IntersectLines_t \<Rightarrow> PointWithinSegments_t \<Rightarrow> GeometryData_t \<Rightarrow> WireID \<Rightarrow> WireID \<Rightarrow>
     exception + (bool \<times> WireIDIntersection)" where
  "WireIDsIntersect IntersectLines PointWithinSegments geo wid1 wid2 =
     (if \<not> WireIDIntersectionCheck geo wid1 wid2
      then Inr (False, \<lparr>int_y = PlusInf, int_z = PlusInf, int_TPC = TPCID_InvalidID\<rparr>)
      else
        case WireEndPoints_Segment geo wid1 of
          Inl e \<Rightarrow> Inl e
        | Inr (w1_start, w1_end) \<Rightarrow>
        (case WireEndPoints_Segment geo wid2 of
          Inl e \<Rightarrow> Inl e
        | Inr (w2_start, w2_end) \<Rightarrow>
        (case IntersectLines (Y w1_start) (Z w1_start) (Y w1_end) (Z w1_end)
                             (Y w2_start) (Z w2_start) (Y w2_end) (Z w2_end) of
          None \<Rightarrow> Inr (False, \<lparr>int_y = PlusInf, int_z = PlusInf, int_TPC = TPCID_InvalidID\<rparr>)
        | Some (cy, cz) \<Rightarrow>
            let within_both = PointWithinSegments (Y w1_start) (Z w1_start) (Y w1_end) (Z w1_end)
                           (Y w2_start) (Z w2_start) (Y w2_end) (Z w2_end) cy cz
            in Inr (within_both,
                 \<lparr>int_y = Finite cy, int_z = Finite cz,
                  int_TPC = (if within_both then TPC wid1 else TPCID_InvalidID)\<rparr>))))"

text \<open>
  \<^verbatim>\<open>GeometryCore::IntersectionPoint\<close> (GeometryCore.cxx): the same answer with the two
  coordinates handed back separately.
\<close>

definition IntersectionPoint ::
  "IntersectLines_t \<Rightarrow> PointWithinSegments_t \<Rightarrow> GeometryData_t \<Rightarrow> WireID \<Rightarrow> WireID \<Rightarrow>
     exception + (bool \<times> double \<times> double)" where
  "IntersectionPoint IntersectLines PointWithinSegments geo wid1 wid2 =
     (case WireIDsIntersect IntersectLines PointWithinSegments geo wid1 wid2 of
        Inl e \<Rightarrow> Inl e
      | Inr (found, widIntersect) \<Rightarrow> Inr (found, int_y widIntersect, int_z widIntersect))"

section \<open>The third plane of a TPC\<close>

lemma unat_inc: "(i::uint) < n \<Longrightarrow> unat (i + 1) = Suc (unat i)"
proof -
  assume "i < n"
  then have "unat i < unat n" by (simp add: word_less_nat_alt)
  moreover have "unat n < 2 ^ 32" using unsigned_less [of n] by simp
  ultimately have "unat i + 1 < 2 ^ 32" by simp
  then show ?thesis by (simp add: unat_word_ariths)
qed

text \<open>
  The loop of \<^verbatim>\<open>GeometryCore::ThirdPlane\<close> over \<^verbatim>\<open>iPlane\<close>, with the running
  \<^verbatim>\<open>target_plane\<close>: a plane named by one of the two inputs is skipped
  (\<^verbatim>\<open>continue\<close>), a second candidate raises, the first candidate is recorded.
\<close>

function ThirdPlane_loop :: "uint \<Rightarrow> uint \<Rightarrow> uint \<Rightarrow> uint \<Rightarrow> uint \<Rightarrow> exception + uint" where
  "ThirdPlane_loop nPlanes plane1 plane2 iPlane target_plane =
     (if iPlane < nPlanes then
        if iPlane = plane1 \<or> iPlane = plane2
        then ThirdPlane_loop nPlanes plane1 plane2 (iPlane + 1) target_plane
        else if target_plane \<noteq> nPlanes then Inl (ThirdPlaneTooManyPlanes target_plane iPlane)
        else ThirdPlane_loop nPlanes plane1 plane2 (iPlane + 1) iPlane
      else Inr target_plane)"
  by pat_completeness auto
termination
  by (relation "measure (\<lambda>(nPlanes, plane1, plane2, iPlane, target_plane).
        unat nPlanes - unat iPlane)")
    (auto simp: unat_inc word_less_nat_alt)

declare ThirdPlane_loop.simps [simp del]

text \<open>
  \<^verbatim>\<open>GeometryCore::ThirdPlane\<close> (GeometryCore.cxx). The result
  \<^verbatim>\<open>PlaneID(pid1, target_plane)\<close> is the TPC part of the first argument with the plane
  number found.
\<close>

definition ThirdPlane :: "GeometryData_t \<Rightarrow> PlaneID \<Rightarrow> PlaneID \<Rightarrow> exception + PlaneID" where
  "ThirdPlane geo pid1 pid2 =
     (let nPlanes = Nplanes geo pid1 in
      if nPlanes \<noteq> 3 then Inl (ThirdPlaneSupportsOnly3Planes nPlanes)
      else
        case ThirdPlane_loop nPlanes (Plane pid1) (Plane pid2) 0 nPlanes of
          Inl e \<Rightarrow> Inl e
        | Inr target_plane \<Rightarrow>
            if target_plane = nPlanes then Inl ThirdPlaneCannotFindPlane
            else Inr (PlaneID_in pid1 target_plane))"

section \<open>Begin and end identifiers\<close>

text \<open>
  Modelled from the spec: the begin identifiers (GeometryCore.h is missing). The begin
  identifier of a container is its first element: the index 0 appended to the container's
  own identifier, whose validity flag it copies.
\<close>

definition GetBeginTPCID :: "CryostatID \<Rightarrow> TPCID" where
  "GetBeginTPCID cid = TPCID_in cid 0"

definition GetBeginPlaneID_CryostatID :: "CryostatID \<Rightarrow> PlaneID" where
  "GetBeginPlaneID_CryostatID cid = PlaneID_in (GetBeginTPCID cid) 0"

definition GetBeginPlaneID_TPCID :: "TPCID \<Rightarrow> PlaneID" where
  "GetBeginPlaneID_TPCID tid = PlaneID_in tid 0"

text \<open>\<^verbatim>\<open>GeometryCore::GetEndTPCID(CryostatID)\<close> (GeometryCore.cxx).\<close>

definition GetEndTPCID :: "GeometryData_t \<Rightarrow> CryostatID \<Rightarrow> TPCID" where
  "GetEndTPCID geo cid =
     (if (case CryostatPtr geo cid of None \<Rightarrow> False | Some cryo \<Rightarrow> 0 < NTPC cryo)
      then TPCID_of (Cryostat cid + 1) 0
      else markInvalid (GetBeginTPCID cid))"

text \<open>
  \<^verbatim>\<open>GeometryCore::GetEndPlaneID(CryostatID)\<close> (GeometryCore.cxx): a conditional
  expression whose second branch is the begin identifier as it comes.
\<close>

definition GetEndPlaneID_CryostatID :: "GeometryData_t \<Rightarrow> CryostatID \<Rightarrow> PlaneID" where
  "GetEndPlaneID_CryostatID geo cid =
     (if (case CryostatPtr geo cid of None \<Rightarrow> False | Some cryo \<Rightarrow> 0 < CryostatGeo_MaxPlanes cryo)
      then PlaneID_in (GetEndTPCID geo cid) 0
      else GetBeginPlaneID_CryostatID cid)"

text \<open>
  \<^verbatim>\<open>GeometryCore::GetEndPlaneID(TPCID)\<close> (GeometryCore.cxx). \<^verbatim>\<open>GetNextID\<close>, which
  yields the identifier that follows a TPC, is defined outside the source files and is a
  parameter here.
\<close>

definition GetEndPlaneID_TPCID :: "(TPCID \<Rightarrow> TPCID) \<Rightarrow> GeometryData_t \<Rightarrow> TPCID \<Rightarrow> PlaneID" where
  "GetEndPlaneID_TPCID GetNextID geo tid =
     (if (case TPCPtr geo tid of None \<Rightarrow> False | Some tpc \<Rightarrow> 0 < TPCGeo_Nplanes tpc)
      then PlaneID_in (GetNextID tid) 0
      else markInvalid (GetBeginPlaneID_TPCID tid))"

section \<open>Wire end points\<close>

text \<open>
  \<^verbatim>\<open>GeometryCore::WireEndPoints(WireID, double*, double*)\<close> (GeometryCore.cxx). The two
  output arrays are the lists of the three coordinates written; \<open>swap_entry\<close> is
  \<^verbatim>\<open>std::swap\<close> on one index of the two arrays.
\<close>

definition swap_entry :: "nat \<Rightarrow> real list \<times> real list \<Rightarrow> real list \<times> real list" where
  "swap_entry i = (\<lambda>(xyzStart, xyzEnd). (xyzStart[i := xyzEnd ! i], xyzEnd[i := xyzStart ! i]))"

definition WireEndPoints :: "GeometryData_t \<Rightarrow> WireID \<Rightarrow> exception + (real list \<times> real list)" where
  "WireEndPoints geo wireid =
     (case WireEndPoints_Segment geo wireid of
        Inl e \<Rightarrow> Inl e
      | Inr (result_start, result_end) \<Rightarrow>
          let a0 = ([X result_start, Y result_start, Z result_start],
                    [X result_end, Y result_end, Z result_end]);
              a1 = (if snd a0 ! 2 < fst a0 ! 2
                    then swap_entry 2 (swap_entry 1 (swap_entry 0 a0)) else a0);
              a2 = (if snd a1 ! 1 < fst a1 ! 1 \<and> \<bar>snd a1 ! 2 - fst a1 ! 2\<bar> < 0.01
                    then swap_entry 2 (swap_entry 1 (swap_entry 0 a1)) else a1)
          in Inr a2)"

section \<open>Optical detector numbering\<close>

text \<open>
  \<^verbatim>\<open>std::vector::at\<close> checks its index, \<^verbatim>\<open>resize\<close> truncates or pads with zeros.
\<close>

definition vector_at :: "'a list \<Rightarrow> nat \<Rightarrow> exception + 'a" where
  "vector_at v i = (if i < length v then Inr (v ! i) else Inl std_out_of_range)"

definition vector_resize :: "uint list \<Rightarrow> nat \<Rightarrow> uint list" where
  "vector_resize v n = take n v @ replicate (n - length v) 0"

text \<open>
  The function-local \<^verbatim>\<open>static\<close> variables of \<^verbatim>\<open>OpDetFromCryo\<close> live across calls: they
  are a state that each call receives and hands back. \<^verbatim>\<open>Loaded\<close> is set before the table
  is filled, so the state also records a table left unfinished by an exception.
\<close>

record OpDetFromCryo_statics =
  Loaded :: bool
  LowestID :: "uint list"
  NCryo :: uint

definition OpDetFromCryo_statics_init :: OpDetFromCryo_statics where
  "OpDetFromCryo_statics_init = \<lparr>Loaded = False, LowestID = [], NCryo = 0\<rparr>"

text \<open>
  The loop \<^verbatim>\<open>for (size_t cryo = 0; cryo != NCryo; ++cryo)\<close> of \<^verbatim>\<open>OpDetFromCryo\<close>, as a
  recursion over the indices it visits. Each round adds \<^verbatim>\<open>Cryostat(cid).NOpDet()\<close>, the
  count of the cryostat \<^verbatim>\<open>cid\<close> that the call asks about, whatever \<^verbatim>\<open>cryo\<close> is. The result
  is the exception that ended the loop, if any, and the table as it stands then.
\<close>

fun OpDetFromCryo_fill ::
  "GeometryData_t \<Rightarrow> CryostatID \<Rightarrow> nat list \<Rightarrow> uint list \<Rightarrow> exception option \<times> uint list" where
  "OpDetFromCryo_fill geo cid [] lowest = (None, lowest)"
| "OpDetFromCryo_fill geo cid (cryo # rest) lowest =
     (case vector_at lowest cryo of
        Inl e \<Rightarrow> (Some e, lowest)
      | Inr previous \<Rightarrow>
     (case GeometryCore_Cryostat geo cid of
        Inl e \<Rightarrow> (Some e, lowest)
      | Inr cryostat \<Rightarrow>
          if cryo + 1 < length lowest
          then OpDetFromCryo_fill geo cid rest (lowest[cryo + 1 := previous + NOpDet cryostat])
          else (Some std_out_of_range, lowest)))"

text \<open>
  \<^verbatim>\<open>GeometryCore::OpDetFromCryo\<close> (GeometryCore.cxx). The argument \<^verbatim>\<open>o\<close> of the source is
  written \<open>o'\<close>. The value is the result, or the exception thrown, with the state of the
  static variables after the call.
\<close>

definition OpDetFromCryo ::
  "GeometryData_t \<Rightarrow> OpDetFromCryo_statics \<Rightarrow> uint \<Rightarrow> uint \<Rightarrow>
     (exception + uint) \<times> OpDetFromCryo_statics" where
  "OpDetFromCryo geo st o' c =
     (let cid = \<lparr>isValid = True, Cryostat = c\<rparr>;
          (thrown, st1) =
            (if \<not> Loaded st then
               let nCryo = Ncryostats geo;
                   lowest0 = vector_resize (LowestID st) (unat (nCryo + 1));
                   st0 = st\<lparr>Loaded := True, NCryo := nCryo\<rparr>
               in if 0 < length lowest0 then
                    let (thrown, lowest) =
                          OpDetFromCryo_fill geo cid [0..<unat nCryo] (lowest0[0 := 0])
                    in (thrown, st0\<lparr>LowestID := lowest\<rparr>)
                  else (Some std_out_of_range, st0\<lparr>LowestID := lowest0\<rparr>)
             else (None, st))
      in case thrown of
           Some e \<Rightarrow> (Inl e, st1)
         | None \<Rightarrow>
             if c < NCryo st1 then
               (case GeometryCore_Cryostat geo cid of
                  Inl e \<Rightarrow> (Inl e, st1)
                | Inr cryostat \<Rightarrow>
                    if o' < NOpDet cryostat then
                      (case vector_at (LowestID st1) (unat c) of
                         Inl e \<Rightarrow> (Inl e, st1)
                       | Inr lowest \<Rightarrow> (Inr (lowest + o'), st1))
                    else (Inl (OpDetCryoToOpIDError c o'), st1))
             else (Inl (OpDetCryoToOpIDError c o'), st1))"

text \<open>
  The static variables of \<^verbatim>\<open>OpDetGeoFromOpDet\<close>, a second table of its own. Here
  \<^verbatim>\<open>NCryo\<close> is a \<^verbatim>\<open>size_t\<close> and the vector is indexed without a check; the table has
  \<^verbatim>\<open>NCryo + 1\<close> entries, which all indices of the two loops stay below.
\<close>

record OpDetGeoFromOpDet_statics =
  Loaded2 :: bool
  LowestID2 :: "uint list"
  NCryo2 :: nat

definition OpDetGeoFromOpDet_statics_init :: OpDetGeoFromOpDet_statics where
  "OpDetGeoFromOpDet_statics_init = \<lparr>Loaded2 = False, LowestID2 = [], NCryo2 = 0\<rparr>"

text \<open>
  Modelled from the spec: \<^verbatim>\<open>CryostatGeo::OpDet\<close>, the optical detector of a cryostat with
  a given index (CryostatGeo.h is missing). An index out of range has no detector.
\<close>

definition CryostatGeo_OpDet :: "CryostatGeo \<Rightarrow> uint \<Rightarrow> exception + OpDetGeo" where
  "CryostatGeo_OpDet cryostat iopdet =
     (if iopdet < NOpDet cryostat then Inr (fOpDets cryostat ! unat iopdet)
      else Inl std_out_of_range)"

text \<open>
  The filling loop of \<^verbatim>\<open>OpDetGeoFromOpDet\<close>: each round adds the count of the cryostat
  with the running index, \<^verbatim>\<open>Cryostat(CryostatID(cryo)).NOpDet()\<close>.
\<close>

fun OpDetGeoFromOpDet_fill ::
  "GeometryData_t \<Rightarrow> nat list \<Rightarrow> uint list \<Rightarrow> exception option \<times> uint list" where
  "OpDetGeoFromOpDet_fill geo [] lowest = (None, lowest)"
| "OpDetGeoFromOpDet_fill geo (cryo # rest) lowest =
     (case GeometryCore_Cryostat geo \<lparr>isValid = True, Cryostat = of_nat cryo\<rparr> of
        Inl e \<Rightarrow> (Some e, lowest)
      | Inr cryostat \<Rightarrow>
          OpDetGeoFromOpDet_fill geo rest (lowest[cryo + 1 := lowest ! cryo + NOpDet cryostat]))"

text \<open>The search loop: the first cryostat whose range of numbers holds \<^verbatim>\<open>OpDet\<close>.\<close>

fun OpDetGeoFromOpDet_search ::
  "GeometryData_t \<Rightarrow> uint list \<Rightarrow> uint \<Rightarrow> nat list \<Rightarrow> exception + OpDetGeo" where
  "OpDetGeoFromOpDet_search geo lowest OpDet [] = Inl (OpIDToOpDetCryoError OpDet)"
| "OpDetGeoFromOpDet_search geo lowest OpDet (i # rest) =
     (if OpDet \<ge> lowest ! i \<and> OpDet < lowest ! (i + 1) then
        (case GeometryCore_Cryostat geo \<lparr>isValid = True, Cryostat = of_nat i\<rparr> of
           Inl e \<Rightarrow> Inl e
         | Inr cryostat \<Rightarrow> CryostatGeo_OpDet cryostat (OpDet - lowest ! i))
      else OpDetGeoFromOpDet_search geo lowest OpDet rest)"

text \<open>\<^verbatim>\<open>GeometryCore::OpDetGeoFromOpDet\<close> (GeometryCore.cxx).\<close>

definition OpDetGeoFromOpDet ::
  "GeometryData_t \<Rightarrow> OpDetGeoFromOpDet_statics \<Rightarrow> uint \<Rightarrow>
     (exception + OpDetGeo) \<times> OpDetGeoFromOpDet_statics" where
  "OpDetGeoFromOpDet geo st OpDet =
     (let (thrown, st1) =
            (if \<not> Loaded2 st then
               let nCryo = unat (Ncryostats geo);
                   lowest0 = (vector_resize (LowestID2 st) (nCryo + 1))[0 := 0];
                   (thrown, lowest) = OpDetGeoFromOpDet_fill geo [0..<nCryo] lowest0
               in (thrown, st\<lparr>Loaded2 := True, NCryo2 := nCryo, LowestID2 := lowest\<rparr>)
             else (None, st))
      in case thrown of
           Some e \<Rightarrow> (Inl e, st1)
         | None \<Rightarrow> (OpDetGeoFromOpDet_search geo (LowestID2 st1) OpDet [0..<NCryo2 st1], st1))"

text \<open>The number of optical detectors of the cryostat at a position of the hierarchy.\<close>

definition opdet_count :: "GeometryData_t \<Rightarrow> nat \<Rightarrow> nat" where
  "opdet_count geo j = length (fOpDets (geo ! j))"

section \<open>Closest wire\<close>

text \<open>
  \<^verbatim>\<open>PlaneGeo::ClosestWireID(WireID_t)\<close> and \<^verbatim>\<open>PlaneGeo::ClosestWireID(WireID const&)\<close>, the
  inline implementations at the end of PlaneGeo.h. The argument is unsigned, so a
  negative wire number reaches the function as a large positive one.
\<close>

definition ClosestWireID :: "PlaneGeo \<Rightarrow> uint \<Rightarrow> WireID" where
  "ClosestWireID p wireNo = WireID_in (fID p) (min wireNo (Nwires p))"

definition ClosestWireID_WireID :: "PlaneGeo \<Rightarrow> WireID \<Rightarrow> WireID" where
  "ClosestWireID_WireID p wireid =
     (if \<not> PlaneID_eq (asPlaneID wireid) (fID p) then markInvalid wireid
      else ClosestWireID p (Wire wireid))"

section \<open>Frames and coordinates\<close>

definition dot :: "Vector_t \<Rightarrow> Vector_t \<Rightarrow> real" where
  "dot u v = X u * X v + Y u * Y v + Z u * Z v"

definition cross :: "Vector_t \<Rightarrow> Vector_t \<Rightarrow> Vector_t" where
  "cross u v =
     \<lparr>X = Y u * Z v - Z u * Y v, Y = Z u * X v - X u * Z v, Z = X u * Y v - Y u * X v\<rparr>"

definition vadd :: "Vector_t \<Rightarrow> Vector_t \<Rightarrow> Vector_t" where
  "vadd u v = \<lparr>X = X u + X v, Y = Y u + Y v, Z = Z u + Z v\<rparr>"

definition vsub :: "Vector_t \<Rightarrow> Vector_t \<Rightarrow> Vector_t" where
  "vsub u v = \<lparr>X = X u - X v, Y = Y u - Y v, Z = Z u - Z v\<rparr>"

definition vscale :: "real \<Rightarrow> Vector_t \<Rightarrow> Vector_t" where
  "vscale k v = \<lparr>X = k * X v, Y = k * Y v, Z = k * Z v\<rparr>"

text \<open>
  Modelled from the spec: the operations of \<^verbatim>\<open>geo::Decomposer\<close> (Decomposer.h is
  missing). With reference point \<open>R\<close>, main axis \<open>A\<close>, secondary axis \<open>B\<close> and normal
  \<open>N = A \<times> B\<close>, a point \<open>P\<close> decomposes into the distance \<open>(P - R) \<cdot> N\<close> and the projection
  \<open>((P - R) \<cdot> A, (P - R) \<cdot> B)\<close>; composition is \<open>R + d N + a A + b B\<close>.
\<close>

definition NormalDir :: "Decomposer \<Rightarrow> Vector_t" where
  "NormalDir d = cross (MainDir d) (SecondaryDir d)"

definition PointNormalComponent :: "Decomposer \<Rightarrow> Point_t \<Rightarrow> real" where
  "PointNormalComponent d point = dot (vsub point (ReferencePoint d)) (NormalDir d)"

definition PointMainComponent :: "Decomposer \<Rightarrow> Point_t \<Rightarrow> real" where
  "PointMainComponent d point = dot (vsub point (ReferencePoint d)) (MainDir d)"

definition PointSecondaryComponent :: "Decomposer \<Rightarrow> Point_t \<Rightarrow> real" where
  "PointSecondaryComponent d point = dot (vsub point (ReferencePoint d)) (SecondaryDir d)"

definition Decomposer_DecomposePoint :: "Decomposer \<Rightarrow> Point_t \<Rightarrow> real \<times> (real \<times> real)" where
  "Decomposer_DecomposePoint d point =
     (PointNormalComponent d point, (PointMainComponent d point, PointSecondaryComponent d point))"

definition Decomposer_ComposePoint :: "Decomposer \<Rightarrow> real \<times> (real \<times> real) \<Rightarrow> Point_t" where
  "Decomposer_ComposePoint d = (\<lambda>(distance, (a, b)).
     vadd (ReferencePoint d)
       (vadd (vscale distance (NormalDir d))
          (vadd (vscale a (MainDir d)) (vscale b (SecondaryDir d)))))"

text \<open>The frame is orthonormal: what the spec requires of every frame of a built plane.\<close>

definition orthonormal :: "Decomposer \<Rightarrow> bool" where
  "orthonormal d \<longleftrightarrow>
     dot (MainDir d) (MainDir d) = 1 \<and> dot (SecondaryDir d) (SecondaryDir d) = 1 \<and>
     dot (MainDir d) (SecondaryDir d) = 0"

text \<open>
  The coordinate functions of \<^verbatim>\<open>geo::PlaneGeo\<close> (PlaneGeo.h), each a call into one of
  the two frames of the plane. \<open>WireCoordinate\<close> divides by the wire pitch, which nothing
  keeps from being zero.
\<close>

definition PlaneCoordinate :: "PlaneGeo \<Rightarrow> Point_t \<Rightarrow> real" where
  "PlaneCoordinate p point = PointSecondaryComponent (fDecompWire p) point"

definition WireCoordinate :: "PlaneGeo \<Rightarrow> Point_t \<Rightarrow> double" where
  "WireCoordinate p point = ddiv (PlaneCoordinate p point) (WirePitch p)"

definition DecomposePoint :: "PlaneGeo \<Rightarrow> Point_t \<Rightarrow> real \<times> (real \<times> real)" where
  "DecomposePoint p point = Decomposer_DecomposePoint (fDecompWire p) point"

definition ComposePoint :: "PlaneGeo \<Rightarrow> real \<times> (real \<times> real) \<Rightarrow> Point_t" where
  "ComposePoint p decomp = Decomposer_ComposePoint (fDecompWire p) decomp"

definition DecomposePointWidthDepth :: "PlaneGeo \<Rightarrow> Point_t \<Rightarrow> real \<times> (real \<times> real)" where
  "DecomposePointWidthDepth p point = Decomposer_DecomposePoint (fDecompFrame p) point"

definition ComposePoint_WidthDepth :: "PlaneGeo \<Rightarrow> real \<times> (real \<times> real) \<Rightarrow> Point_t" where
  "ComposePoint_WidthDepth p decomp = Decomposer_ComposePoint (fDecompFrame p) decomp"

section \<open>Nearest wire\<close>

text \<open>
  Modelled from the spec: \<^verbatim>\<open>PlaneGeo::NearestWireID\<close>, of which PlaneGeo.h has the
  declaration and the description only (its body, in PlaneGeo.cxx, is missing). The wire
  coordinate of the point is rounded to the nearest integer, the nominal wire number; the
  nominal number is clamped to the range from 0 to \<open>Nwires - 1\<close>, which gives the corrected
  number; when the wire with the corrected number is not within half a pitch of the
  projection of the point, the call throws \<^verbatim>\<open>InvalidWireError\<close> with the nominal and the
  corrected number, and otherwise it returns the identifier of that wire on this plane.
  For a plane without wires, and for a wire coordinate that is not finite (a zero pitch),
  the spec describes no result: the value is \<open>None\<close>.
\<close>

definition NearestWireID :: "PlaneGeo \<Rightarrow> Point_t \<Rightarrow> (exception + WireID) option" where
  "NearestWireID p pos =
     (case WireCoordinate p pos of
        Finite wc \<Rightarrow>
          if Nwires p = 0 then None
          else
            let nominal = round wc;
                corrected = max 0 (min nominal (uint (Nwires p) - 1))
            in if \<bar>PlaneCoordinate p pos - of_int corrected * WirePitch p\<bar> \<le> WirePitch p / 2
               then Some (Inr (WireID_in (fID p) (of_int corrected)))
               else Some (Inl (InvalidWireError nominal corrected))
      | _ \<Rightarrow> None)"

section \<open>A small detector\<close>

text \<open>
  A concrete hierarchy on which the theorems below are exercised: two cryostats, the
  first with two TPCs of three planes each, a third TPC of four planes and one optical
  detector, the second without any TPC and with two optical detectors. Every plane has
  three wires along the y axis, half a centimetre apart in z.
\<close>

definition example_wire :: "real \<Rightarrow> WireGeo" where
  "example_wire zc =
     \<lparr>GetStart = \<lparr>X = 0, Y = - 1, Z = zc\<rparr>, GetEnd = \<lparr>X = 0, Y = 1, Z = zc\<rparr>,
      GetCenter = \<lparr>X = 0, Y = 0, Z = zc\<rparr>\<rparr>"

definition example_frame :: Decomposer where
  "example_frame =
     \<lparr>ReferencePoint = \<lparr>X = 0, Y = 0, Z = 0\<rparr>, MainDir = \<lparr>X = 0, Y = 1, Z = 0\<rparr>,
      SecondaryDir = \<lparr>X = 0, Y = 0, Z = 1\<rparr>\<rparr>"

definition example_box_frame :: Decomposer where
  "example_box_frame =
     \<lparr>ReferencePoint = \<lparr>X = 0, Y = 0, Z = 1 / 2\<rparr>, MainDir = \<lparr>X = 0, Y = 3 / 5, Z = 4 / 5\<rparr>,
      SecondaryDir = \<lparr>X = 0, Y = - 4 / 5, Z = 3 / 5\<rparr>\<rparr>"

definition example_plane :: "uint \<Rightarrow> uint \<Rightarrow> uint \<Rightarrow> PlaneGeo" where
  "example_plane c t p =
     \<lparr>fWire = [example_wire 0, example_wire (1 / 2), example_wire 1], fWirePitch = 1 / 2,
      fDecompWire = example_frame, fDecompFrame = example_box_frame,
      fID = \<lparr>isValid = True, Cryostat = c, TPC = t, Plane = p\<rparr>\<rparr>"

definition example_tpc :: "uint \<Rightarrow> uint \<Rightarrow> TPCGeo" where
  "example_tpc c t = \<lparr>fPlanes = [example_plane c t 0, example_plane c t 1, example_plane c t 2]\<rparr>"

definition example_tpc4 :: "uint \<Rightarrow> uint \<Rightarrow> TPCGeo" where
  "example_tpc4 c t =
     \<lparr>fPlanes = [example_plane c t 0, example_plane c t 1, example_plane c t 2, example_plane c t 3]\<rparr>"

definition example_geometry :: GeometryData_t where
  "example_geometry =
     [\<lparr>fTPCs = [example_tpc 0 0, example_tpc 0 1, example_tpc4 0 2], fOpDets = [OpDetGeo ''A'']\<rparr>,
      \<lparr>fTPCs = [], fOpDets = [OpDetGeo ''B'', OpDetGeo ''C'']\<rparr>]"

text \<open>
  A second hierarchy with a single, nearly vertical wire whose stored end point lies
  lower in y and five hundredths of a millimetre higher in z than its start point.
\<close>

definition tilted_wire_geometry :: GeometryData_t where
  "tilted_wire_geometry =
     [\<lparr>fTPCs = [\<lparr>fPlanes = [\<lparr>fWire =
         [\<lparr>GetStart = \<lparr>X = 0, Y = 5, Z = 0\<rparr>, GetEnd = \<lparr>X = 0, Y = 1, Z = 0.005\<rparr>,
           GetCenter = \<lparr>X = 0, Y = 3, Z = 0.0025\<rparr>\<rparr>],
         fWirePitch = 1 / 2, fDecompWire = example_frame, fDecompFrame = example_box_frame,
         fID = \<lparr>isValid = True, Cryostat = 0, TPC = 0, Plane = 0\<rparr>\<rparr>]\<rparr>],
       fOpDets = []\<rparr>]"

definition example_planeid :: "uint \<Rightarrow> uint \<Rightarrow> uint \<Rightarrow> PlaneID" where
  "example_planeid c t p = \<lparr>isValid = True, Cryostat = c, TPC = t, Plane = p\<rparr>"

definition example_wireid :: "uint \<Rightarrow> uint \<Rightarrow> uint \<Rightarrow> uint \<Rightarrow> WireID" where
  "example_wireid c t p w = \<lparr>isValid = True, Cryostat = c, TPC = t, Plane = p, Wire = w\<rparr>"

lemmas example_simps =
  example_geometry_def example_tpc_def example_tpc4_def example_plane_def example_wire_def
  example_frame_def example_box_frame_def example_wireid_def example_planeid_def

lemmas lookup_simps =
  HasWire_def WirePtr_def PlanePtr_def TPCPtr_def CryostatPtr_def HasCryostat_def Ncryostats_def
  CryostatGeo_TPCPtr_def NTPC_def TPCGeo_PlanePtr_def TPCGeo_Nplanes_def PlaneGeo_WirePtr_def
  PlaneGeo_HasWire_def Nwires_def Nplanes_def

section \<open>Properties of the third-plane slope\<close>

lemma ComputeThirdPlaneSlope_one_small:
  assumes "\<not> (\<bar>slope1\<bar> < 0.001 \<and> \<bar>slope2\<bar> < 0.001)"
    and "\<not> (\<bar>slope1\<bar> > 0.001 \<and> \<bar>slope2\<bar> > 0.001)"
  shows "ComputeThirdPlaneSlope angle1 slope1 angle2 slope2 angle3 = Finite 1000"
proof -
  from assms(2) have "(if \<bar>slope1\<bar> > 0.001 \<and> \<bar>slope2\<bar> > 0.001
      then ddiv ((1 / slope1) * sin (angle3 - angle2) - (1 / slope2) * sin (angle3 - angle1))
                (sin (angle1 - angle2))
      else Finite 0.001) = Finite 0.001"
    by (simp only: if_False)
  with assms(1) show ?thesis
    by (simp add: ComputeThirdPlaneSlope_def ddiv_def)
qed

lemma ComputeThirdPlaneSlope_equal_angles:
  assumes "\<bar>slope1\<bar> > 0.001" and "\<bar>slope2\<bar> > 0.001" and "sin (angle1 - angle2) = 0"
    and "(1 / slope1) * sin (angle3 - angle2) - (1 / slope2) * sin (angle3 - angle1) \<noteq> 0"
  shows "ComputeThirdPlaneSlope angle1 slope1 angle2 slope2 angle3 = Finite 0"
  using assms by (auto simp: ComputeThirdPlaneSlope_def ddiv_def)

text \<open>
  The final inversion is never a division by zero: no call returns an infinity. (A NaN
  is returned only when both slopes are above the threshold and the formula is the
  quotient of zero by zero.)
\<close>

lemma ComputeThirdPlaneSlope_never_infinite:
  "ComputeThirdPlaneSlope angle1 slope1 angle2 slope2 angle3 \<noteq> PlusInf \<and>
   ComputeThirdPlaneSlope angle1 slope1 angle2 slope2 angle3 \<noteq> MinusInf"
proof (cases "\<bar>slope1\<bar> > 0.001 \<and> \<bar>slope2\<bar> > 0.001")
  case False
  show ?thesis
  proof (cases "\<bar>slope1\<bar> < 0.001 \<and> \<bar>slope2\<bar> < 0.001")
    case True
    then show ?thesis by (simp add: ComputeThirdPlaneSlope_def)
  next
    case small: False
    from ComputeThirdPlaneSlope_one_small [OF small False] show ?thesis by simp
  qed
next
  case True
  then show ?thesis
    by (auto simp: ComputeThirdPlaneSlope_def ddiv_def Let_def)
qed

text \<open>
  Claim C1, as amended. When both input slopes exceed the threshold 0.001 in magnitude
  and \<open>sin (angle1 - angle2) \<noteq> 0\<close> (the two planes measure different coordinates), the
  value returned by \<open>ComputeThirdPlaneSlope\<close> is a finite number \<open>slope3\<close> with
  \<open>1 / slope3 = [(1 / slope1) sin (angle3 - angle2) - (1 / slope2) sin (angle3 - angle1)] / sin (angle1 - angle2)\<close>,
  except that the sentinel 999 is returned when that quotient is exactly zero.
\<close>

theorem ComputeThirdPlaneSlope_identity:
  assumes "\<bar>slope1\<bar> > 0.001" and "\<bar>slope2\<bar> > 0.001" and "sin (angle1 - angle2) \<noteq> 0"
  shows "\<exists>slope3. ComputeThirdPlaneSlope angle1 slope1 angle2 slope2 angle3 = Finite slope3 \<and>
     (let inv3 = ((1 / slope1) * sin (angle3 - angle2) - (1 / slope2) * sin (angle3 - angle1))
                 / sin (angle1 - angle2)
      in if inv3 = 0 then slope3 = 999 else 1 / slope3 = inv3)"
proof (cases "(1 / slope1) * sin (angle3 - angle2) - (1 / slope2) * sin (angle3 - angle1) = 0")
  case True
  with assms have "ComputeThirdPlaneSlope angle1 slope1 angle2 slope2 angle3 = Finite 999"
    by (simp add: ComputeThirdPlaneSlope_def ddiv_def)
  with True show ?thesis by simp
next
  case False
  define inv3 where "inv3 =
    ((1 / slope1) * sin (angle3 - angle2) - (1 / slope2) * sin (angle3 - angle1))
      / sin (angle1 - angle2)"
  from False assms(3) have nz: "inv3 \<noteq> 0" by (simp add: inv3_def)
  from assms nz have "ComputeThirdPlaneSlope angle1 slope1 angle2 slope2 angle3 = Finite (1 / inv3)"
    by (simp add: ComputeThirdPlaneSlope_def ddiv_def inv3_def)
  with nz show ?thesis by (simp add: inv3_def Let_def)
qed

theorem ComputeThirdPlaneSlope_identity_witness:
  "\<bar>1::real\<bar> > 0.001 \<and> sin (pi / 2 - 0) \<noteq> 0 \<and>
   (\<exists>slope3. ComputeThirdPlaneSlope (pi / 2) 1 0 1 0 = Finite slope3 \<and> 1 / slope3 = 1)"
  using ComputeThirdPlaneSlope_identity [of 1 1 "pi / 2" 0 0] by simp

text \<open>
  The claim as first stated, for every call with both slopes above the threshold, fails
  where \<open>sin (angle1 - angle2) = 0\<close>: the division by it is not guarded. For two planes at
  the same angle and a third one at a right angle to them, equal slopes 1 and 1 give the
  quotient of zero by zero, and the call returns a NaN, which is the reciprocal of no
  number; slopes 1 and 2 give the quotient of 1 / 2 by zero, an infinity, and the call
  returns its reciprocal 0, of which \<open>1 / slope3\<close> is not defined, and which is not the
  sentinel either.
\<close>

theorem ComputeThirdPlaneSlope_equal_angles_counterexample:
  "\<bar>1::real\<bar> > 0.001 \<and> \<bar>2::real\<bar> > 0.001 \<and> sin (0 - 0 :: real) = 0 \<and>
   ComputeThirdPlaneSlope 0 1 0 1 (pi / 2) = NaN \<and>
   ComputeThirdPlaneSlope 0 1 0 2 (pi / 2) = Finite 0 \<and>
   (\<nexists>slope3. ComputeThirdPlaneSlope 0 1 0 1 (pi / 2) = Finite slope3) \<and>
   (\<nexists>slope3. ComputeThirdPlaneSlope 0 1 0 2 (pi / 2) = Finite slope3 \<and>
      (slope3 = 999 \<or> slope3 \<noteq> 0))"
  by (simp add: ComputeThirdPlaneSlope_def ddiv_def)

text \<open>A computed quotient is exactly zero when the dividend is, over a non-zero divisor.\<close>

lemma ddiv_eq_zero_iff: "ddiv a b = Finite 0 \<longleftrightarrow> a = 0 \<and> b \<noteq> 0"
  by (auto simp: ddiv_def)

text \<open>
  Claim C4. \<open>ComputeThirdPlaneSlope\<close> returns the threshold 0.001 itself when both input
  slopes are below the threshold in magnitude, whatever the angles are; and when both
  slopes are above it and the slope computed by the trigonometric formula is exactly
  zero, the sentinel 999 is returned in place of its reciprocal.
\<close>

theorem ComputeThirdPlaneSlope_edge_policy:
  "(\<bar>slope1\<bar> < 0.001 \<and> \<bar>slope2\<bar> < 0.001 \<longrightarrow>
      ComputeThirdPlaneSlope angle1 slope1 angle2 slope2 angle3 = Finite 0.001) \<and>
   (\<bar>slope1\<bar> > 0.001 \<and> \<bar>slope2\<bar> > 0.001 \<and>
    ddiv ((1 / slope1) * sin (angle3 - angle2) - (1 / slope2) * sin (angle3 - angle1))
         (sin (angle1 - angle2)) = Finite 0 \<longrightarrow>
      ComputeThirdPlaneSlope angle1 slope1 angle2 slope2 angle3 = Finite 999)"
  by (simp add: ComputeThirdPlaneSlope_def)

theorem ComputeThirdPlaneSlope_edge_policy_witness:
  "ComputeThirdPlaneSlope 0 0 0 0 0 = Finite 0.001 \<and>
   ddiv ((1 / 2) * sin (pi / 2 - 0) - (1 / 1) * sin (pi / 2 - pi / 3)) (sin (pi / 3 - 0)) = Finite 0 \<and>
   ComputeThirdPlaneSlope (pi / 3) 2 0 1 (pi / 2) = Finite 999"
proof -
  have e: "pi / 2 - pi / 3 = pi / 6" by simp
  have d: "ddiv ((1 / 2) * sin (pi / 2 - 0) - (1 / 1) * sin (pi / 2 - pi / 3)) (sin (pi / 3 - 0))
             = Finite 0"
    by (simp add: ddiv_def e sin_30 sin_60)
  from ComputeThirdPlaneSlope_edge_policy [of 0 0 0 0 0]
  have a: "ComputeThirdPlaneSlope 0 0 0 0 0 = Finite 0.001" by simp
  from d ComputeThirdPlaneSlope_edge_policy [of 2 1 "pi / 3" 0 "pi / 2"]
  have b: "ComputeThirdPlaneSlope (pi / 3) 2 0 1 (pi / 2) = Finite 999" by simp
  from a b d show ?thesis by simp
qed

section \<open>Properties of the wire intersection\<close>

lemma HasWire_iff:
  "HasWire geo wireid \<longleftrightarrow> (\<exists>wire. WirePtr geo wireid = Some wire)"
  by (simp add: HasWire_def WirePtr_def PlaneGeo_WirePtr_def split: option.splits)

lemma WireIDIntersectionCheck_iff:
  "WireIDIntersectionCheck geo wid1 wid2 \<longleftrightarrow>
     Cryostat wid1 = Cryostat wid2 \<and> TPC wid1 = TPC wid2 \<and> Plane wid1 \<noteq> Plane wid2 \<and>
     HasWire geo wid1 \<and> HasWire geo wid2"
  by (auto simp: WireIDIntersectionCheck_def TPCID_eq_def CryostatID_eq_def asTPCID_def
      asCryostatID_def)

text \<open>
  Once the check has passed, both end-point lookups succeed: the function never
  raises, whatever the two helpers answer.
\<close>

lemma WireIDsIntersect_never_raises:
  "\<exists>r. WireIDsIntersect IntersectLines PointWithinSegments geo wid1 wid2 = Inr r"
proof (cases "WireIDIntersectionCheck geo wid1 wid2")
  case False
  then show ?thesis by (auto simp: WireIDsIntersect_def)
next
  case True
  then obtain wire1 wire2 where "WirePtr geo wid1 = Some wire1" "WirePtr geo wid2 = Some wire2"
    by (auto simp: WireIDIntersectionCheck_iff HasWire_iff)
  with True show ?thesis
    by (auto simp: WireIDsIntersect_def WireEndPoints_Segment_def Let_def split: option.splits)
qed

text \<open>
  Claim C3. When the two wires are on different TPCs (a different cryostat or TPC
  index), or carry the same plane number, or one of them does not exist in the geometry
  (its wire index, or an index above it, is out of range), \<open>WireIDsIntersect\<close> returns
  normally, with the flag \<open>False\<close> and both coordinates set to plus infinity. No exception
  is raised, and the geometry of the wires and the two helpers play no part.
\<close>

theorem WireIDsIntersect_precondition_failure:
  assumes "\<not> TPCID_eq (asTPCID wid1) (asTPCID wid2) \<or> Plane wid1 = Plane wid2 \<or>
           \<not> HasWire geo wid1 \<or> \<not> HasWire geo wid2"
  shows "WireIDsIntersect IntersectLines PointWithinSegments geo wid1 wid2 =
           Inr (False, \<lparr>int_y = PlusInf, int_z = PlusInf, int_TPC = TPCID_InvalidID\<rparr>)"
proof -
  from assms have "\<not> WireIDIntersectionCheck geo wid1 wid2"
    by (auto simp: WireIDIntersectionCheck_def)
  then show ?thesis
    by (simp add: WireIDsIntersect_def)
qed

theorem WireIDsIntersect_precondition_failure_witness:
  "Plane (example_wireid 0 0 1 0) = Plane (example_wireid 0 0 1 2) \<and>
   HasWire example_geometry (example_wireid 0 0 1 0) \<and>
   HasWire example_geometry (example_wireid 0 0 1 2) \<and>
   WireIDsIntersect (\<lambda>a b c d e f g h. Some (0, 0)) (\<lambda>a b c d e f g h i j. True)
     example_geometry (example_wireid 0 0 1 0) (example_wireid 0 0 1 2) =
   Inr (False, \<lparr>int_y = PlusInf, int_z = PlusInf, int_TPC = TPCID_InvalidID\<rparr>)"
proof -
  have p: "Plane (example_wireid 0 0 1 0) = Plane (example_wireid 0 0 1 2)"
    by (simp add: example_wireid_def)
  have h: "HasWire example_geometry (example_wireid 0 0 1 0)"
     "HasWire example_geometry (example_wireid 0 0 1 2)"
    by (simp_all add: lookup_simps example_simps)
  from p have "\<not> TPCID_eq (asTPCID (example_wireid 0 0 1 0)) (asTPCID (example_wireid 0 0 1 2)) \<or>
      Plane (example_wireid 0 0 1 0) = Plane (example_wireid 0 0 1 2) \<or>
      \<not> HasWire example_geometry (example_wireid 0 0 1 0) \<or>
      \<not> HasWire example_geometry (example_wireid 0 0 1 2)"
    by simp
  from WireIDsIntersect_precondition_failure [OF this] p h show ?thesis by simp
qed

section \<open>Properties of the third plane\<close>

lemma uint_less_3: "(p::uint) < 3 \<longleftrightarrow> p = 0 \<or> p = 1 \<or> p = 2"
  by unat_arith

lemma uint_ge_3: "3 \<le> (p::uint) \<Longrightarrow> p \<noteq> 0 \<and> p \<noteq> 1 \<and> p \<noteq> 2"
  by unat_arith

text \<open>The three rounds of the loop on a TPC with three planes, unrolled.\<close>

lemma ThirdPlane_loop_unrolled:
  "ThirdPlane_loop 3 p1 p2 0 3 =
     (if 0 = p1 \<or> 0 = p2 then
        (if 1 = p1 \<or> 1 = p2 then
           (if 2 = p1 \<or> 2 = p2 then Inr 3 else Inr 2)
         else
           (if 2 = p1 \<or> 2 = p2 then Inr 1 else Inl (ThirdPlaneTooManyPlanes 1 2)))
      else
        (if 1 = p1 \<or> 1 = p2 then
           (if 2 = p1 \<or> 2 = p2 then Inr 0 else Inl (ThirdPlaneTooManyPlanes 0 2))
         else Inl (ThirdPlaneTooManyPlanes 0 1)))"
proof -
  have s3: "ThirdPlane_loop 3 p1 p2 3 t = Inr t" for t
    by (subst ThirdPlane_loop.simps) simp
  have s2: "ThirdPlane_loop 3 p1 p2 2 t =
       (if 2 = p1 \<or> 2 = p2 then Inr t
        else if t \<noteq> 3 then Inl (ThirdPlaneTooManyPlanes t 2) else Inr 2)" for t
    by (subst ThirdPlane_loop.simps) (simp add: s3)
  have s1: "ThirdPlane_loop 3 p1 p2 1 t =
       (if 1 = p1 \<or> 1 = p2 then ThirdPlane_loop 3 p1 p2 2 t
        else if t \<noteq> 3 then Inl (ThirdPlaneTooManyPlanes t 1)
        else ThirdPlane_loop 3 p1 p2 2 1)" for t
    by (subst ThirdPlane_loop.simps) simp
  have s0: "ThirdPlane_loop 3 p1 p2 0 3 =
       (if 0 = p1 \<or> 0 = p2 then ThirdPlane_loop 3 p1 p2 1 3 else ThirdPlane_loop 3 p1 p2 1 0)"
    by (subst ThirdPlane_loop.simps) simp
  show ?thesis
    unfolding s0 s1 s2 by simp
qed

lemma ThirdPlane_loop_3:
  "ThirdPlane_loop 3 p1 p2 0 3 =
     (if p1 = p2 \<or> 3 \<le> p1 \<or> 3 \<le> p2 then
        Inl (if p1 = 0 \<or> p2 = 0 then ThirdPlaneTooManyPlanes 1 2
             else if p1 = 1 \<or> p2 = 1 then ThirdPlaneTooManyPlanes 0 2
             else ThirdPlaneTooManyPlanes 0 1)
      else Inr (3 - p1 - p2))"
proof -
  have c1: "p1 = 0 \<or> p1 = 1 \<or> p1 = 2 \<or> 3 \<le> p1"
    using uint_less_3 [of p1] by (auto simp: not_less)
  have c2: "p2 = 0 \<or> p2 = 1 \<or> p2 = 2 \<or> 3 \<le> p2"
    using uint_less_3 [of p2] by (auto simp: not_less)
  have n31: "\<not> (3::uint) \<le> 1" by (simp add: word_le_nat_alt)
  show ?thesis
    unfolding ThirdPlane_loop_unrolled using c1 c2 uint_ge_3 [of p1] uint_ge_3 [of p2]
    by (elim disjE) (simp_all add: n31)
qed

text \<open>What \<open>ThirdPlane\<close> computes, in closed form.\<close>

lemma ThirdPlane_closed_form:
  "ThirdPlane geo pid1 pid2 =
     (if Nplanes geo pid1 \<noteq> 3 then Inl (ThirdPlaneSupportsOnly3Planes (Nplanes geo pid1))
      else if Plane pid1 = Plane pid2 \<or> 3 \<le> Plane pid1 \<or> 3 \<le> Plane pid2 then
        Inl (if Plane pid1 = 0 \<or> Plane pid2 = 0 then ThirdPlaneTooManyPlanes 1 2
             else if Plane pid1 = 1 \<or> Plane pid2 = 1 then ThirdPlaneTooManyPlanes 0 2
             else ThirdPlaneTooManyPlanes 0 1)
      else Inr (PlaneID_in pid1 (3 - Plane pid1 - Plane pid2)))"
proof (cases "Nplanes geo pid1 = 3")
  case False
  then show ?thesis by (simp add: ThirdPlane_def)
next
  case True
  have r: "3 - p1 - p2 \<noteq> (3::uint)" if "p1 < 3" "p2 < 3" "p1 \<noteq> p2" for p1 p2
    using that unfolding uint_less_3 by (elim disjE) simp_all
  show ?thesis
  proof (cases "Plane pid1 = Plane pid2 \<or> 3 \<le> Plane pid1 \<or> 3 \<le> Plane pid2")
    case bad: True
    then show ?thesis
      using True by (simp add: ThirdPlane_def ThirdPlane_loop_3)
  next
    case good: False
    then have "3 - Plane pid1 - Plane pid2 \<noteq> 3"
      using r [of "Plane pid1" "Plane pid2"] by (simp add: not_le)
    with good True show ?thesis
      by (simp add: ThirdPlane_def ThirdPlane_loop_3)
  qed
qed

text \<open>
  Claim C5, as amended. \<open>ThirdPlane pid1 pid2\<close> raises when the TPC of \<open>pid1\<close> does not
  have exactly three planes (so for four planes, and for a TPC that does not exist), and
  on a TPC with three planes it raises when the two plane numbers are equal or one of them
  is not below 3. Otherwise, that is for two different plane numbers of that TPC, it returns
  the identifier made of the TPC part of \<open>pid1\<close> and the one plane number below 3 that
  neither argument carries. Only the plane number of \<open>pid2\<close> is read: its cryostat and TPC
  indices play no part.
\<close>

theorem ThirdPlane_remaining_plane:
  "(Nplanes geo pid1 \<noteq> 3 \<longrightarrow>
      ThirdPlane geo pid1 pid2 = Inl (ThirdPlaneSupportsOnly3Planes (Nplanes geo pid1))) \<and>
   (Nplanes geo pid1 = 3 \<and> (Plane pid1 = Plane pid2 \<or> 3 \<le> Plane pid1 \<or> 3 \<le> Plane pid2) \<longrightarrow>
      (\<exists>a b. ThirdPlane geo pid1 pid2 = Inl (ThirdPlaneTooManyPlanes a b))) \<and>
   (Nplanes geo pid1 = 3 \<and> Plane pid1 \<noteq> Plane pid2 \<and> Plane pid1 < 3 \<and> Plane pid2 < 3 \<longrightarrow>
      (\<exists>t. ThirdPlane geo pid1 pid2 = Inr (PlaneID_in pid1 t) \<and>
           t < 3 \<and> t \<noteq> Plane pid1 \<and> t \<noteq> Plane pid2))"
proof (intro conjI impI)
  assume "Nplanes geo pid1 \<noteq> 3"
  then show "ThirdPlane geo pid1 pid2 = Inl (ThirdPlaneSupportsOnly3Planes (Nplanes geo pid1))"
    by (simp add: ThirdPlane_closed_form)
next
  assume "Nplanes geo pid1 = 3 \<and> (Plane pid1 = Plane pid2 \<or> 3 \<le> Plane pid1 \<or> 3 \<le> Plane pid2)"
  then show "\<exists>a b. ThirdPlane geo pid1 pid2 = Inl (ThirdPlaneTooManyPlanes a b)"
    by (simp add: ThirdPlane_closed_form)
next
  assume a: "Nplanes geo pid1 = 3 \<and> Plane pid1 \<noteq> Plane pid2 \<and> Plane pid1 < 3 \<and> Plane pid2 < 3"
  have r: "3 - p1 - p2 < (3::uint) \<and> 3 - p1 - p2 \<noteq> p1 \<and> 3 - p1 - p2 \<noteq> p2"
    if "p1 < 3" "p2 < 3" "p1 \<noteq> p2" for p1 p2
    using that unfolding uint_less_3 by (elim disjE) simp_all
  from a have "ThirdPlane geo pid1 pid2 = Inr (PlaneID_in pid1 (3 - Plane pid1 - Plane pid2))"
    by (simp add: ThirdPlane_closed_form not_le [symmetric])
  with a r [of "Plane pid1" "Plane pid2"]
  show "\<exists>t. ThirdPlane geo pid1 pid2 = Inr (PlaneID_in pid1 t) \<and>
           t < 3 \<and> t \<noteq> Plane pid1 \<and> t \<noteq> Plane pid2"
    by blast
qed

theorem ThirdPlane_remaining_plane_witness:
  "Nplanes example_geometry (example_planeid 0 2 0) = 4 \<and>
   ThirdPlane example_geometry (example_planeid 0 2 0) (example_planeid 0 2 1) =
     Inl (ThirdPlaneSupportsOnly3Planes 4) \<and>
   Nplanes example_geometry (example_planeid 0 0 1) = 3 \<and>
   (\<exists>a b. ThirdPlane example_geometry (example_planeid 0 0 1) (example_planeid 0 0 1) =
     Inl (ThirdPlaneTooManyPlanes a b)) \<and>
   (\<exists>t. ThirdPlane example_geometry (example_planeid 0 0 1) (example_planeid 0 0 2) =
     Inr (PlaneID_in (example_planeid 0 0 1) t) \<and> t < 3 \<and> t \<noteq> 1 \<and> t \<noteq> 2)"
proof -
  have n4: "Nplanes example_geometry (example_planeid 0 2 0) = 4"
    by (simp add: lookup_simps example_simps)
  have n3: "Nplanes example_geometry (example_planeid 0 0 1) = 3"
    by (simp add: lookup_simps example_simps)
  have lt: "(1::uint) < 3" "(2::uint) < 3" by (simp_all add: word_less_nat_alt)
  from n4 ThirdPlane_remaining_plane
    [of example_geometry "example_planeid 0 2 0" "example_planeid 0 2 1"]
  have a: "ThirdPlane example_geometry (example_planeid 0 2 0) (example_planeid 0 2 1) =
     Inl (ThirdPlaneSupportsOnly3Planes 4)"
    by simp
  from n3 ThirdPlane_remaining_plane
    [of example_geometry "example_planeid 0 0 1" "example_planeid 0 0 1"]
  have b: "\<exists>a b. ThirdPlane example_geometry (example_planeid 0 0 1) (example_planeid 0 0 1) =
     Inl (ThirdPlaneTooManyPlanes a b)"
    by simp
  from n3 lt ThirdPlane_remaining_plane
    [of example_geometry "example_planeid 0 0 1" "example_planeid 0 0 2"]
  have c: "\<exists>t. ThirdPlane example_geometry (example_planeid 0 0 1) (example_planeid 0 0 2) =
     Inr (PlaneID_in (example_planeid 0 0 1) t) \<and> t < 3 \<and> t \<noteq> 1 \<and> t \<noteq> 2"
    by (simp add: example_planeid_def)
  from n4 n3 a b c show ?thesis by blast
qed

text \<open>
  The claim as first stated fails: on a TPC with three planes, two distinct plane
  identifiers do not suffice. Two existing planes with the same plane number on two
  different TPCs are distinct identifiers, and so are a plane of the TPC and an identifier
  whose plane number the TPC does not have; \<open>ThirdPlane\<close> raises on both pairs.
\<close>

theorem ThirdPlane_distinct_ids_counterexample:
  "Nplanes example_geometry (example_planeid 0 0 1) = 3 \<and>
   \<not> PlaneID_eq (example_planeid 0 0 1) (example_planeid 0 1 1) \<and>
   ThirdPlane example_geometry (example_planeid 0 0 1) (example_planeid 0 1 1) =
     Inl (ThirdPlaneTooManyPlanes 0 2) \<and>
   Nplanes example_geometry (example_planeid 0 0 0) = 3 \<and>
   \<not> PlaneID_eq (example_planeid 0 0 0) (example_planeid 0 0 7) \<and>
   ThirdPlane example_geometry (example_planeid 0 0 0) (example_planeid 0 0 7) =
     Inl (ThirdPlaneTooManyPlanes 1 2)"
proof -
  have n: "Nplanes example_geometry (example_planeid 0 0 p) = 3" for p
    by (simp add: lookup_simps example_simps)
  have d: "\<not> PlaneID_eq (example_planeid 0 0 1) (example_planeid 0 1 1)"
     "\<not> PlaneID_eq (example_planeid 0 0 0) (example_planeid 0 0 7)"
    by (simp_all add: PlaneID_eq_def TPCID_eq_def CryostatID_eq_def asTPCID_def asCryostatID_def
        example_planeid_def)
  have a: "ThirdPlane example_geometry (example_planeid 0 0 1) (example_planeid 0 1 1) =
     Inl (ThirdPlaneTooManyPlanes 0 2)"
    by (simp add: ThirdPlane_def n ThirdPlane_loop_unrolled) (simp add: example_planeid_def)
  have b: "ThirdPlane example_geometry (example_planeid 0 0 0) (example_planeid 0 0 7) =
     Inl (ThirdPlaneTooManyPlanes 1 2)"
    by (simp add: ThirdPlane_def n ThirdPlane_loop_unrolled) (simp add: example_planeid_def)
  from n d a b show ?thesis by simp
qed

section \<open>Properties of the end identifiers\<close>

text \<open>The TPC-level end identifier: the two branches of the source.\<close>

lemma GetEndPlaneID_TPCID_nonempty:
  assumes "TPCPtr geo tid = Some tpc" and "0 < TPCGeo_Nplanes tpc"
  shows "GetEndPlaneID_TPCID GetNextID geo tid = PlaneID_in (GetNextID tid) 0"
  using assms by (simp add: GetEndPlaneID_TPCID_def)

lemma GetEndPlaneID_TPCID_empty:
  assumes "\<not> (case TPCPtr geo tid of None \<Rightarrow> False | Some tpc \<Rightarrow> 0 < TPCGeo_Nplanes tpc)"
  shows "GetEndPlaneID_TPCID GetNextID geo tid =
           \<lparr>isValid = False, Cryostat = Cryostat tid, TPC = TPC tid, Plane = 0\<rparr>"
  using assms
  by (simp add: GetEndPlaneID_TPCID_def GetBeginPlaneID_TPCID_def PlaneID_in_def markInvalid_def)

text \<open>
  The cryostat-level end identifier. With a plane in the cryostat it is the first plane
  of the first TPC of the next cryostat; without one it is the begin identifier with the
  validity flag of the argument, which nothing clears.
\<close>

lemma GetEndPlaneID_CryostatID_nonempty:
  assumes "CryostatPtr geo cid = Some cryo" and "0 < CryostatGeo_MaxPlanes cryo"
    and "0 < NTPC cryo"
  shows "GetEndPlaneID_CryostatID geo cid =
           \<lparr>isValid = True, Cryostat = Cryostat cid + 1, TPC = 0, Plane = 0\<rparr>"
  using assms
  by (simp add: GetEndPlaneID_CryostatID_def GetEndTPCID_def PlaneID_in_def TPCID_of_def)

lemma GetEndPlaneID_CryostatID_empty:
  assumes "\<not> (case CryostatPtr geo cid of None \<Rightarrow> False
               | Some cryo \<Rightarrow> 0 < CryostatGeo_MaxPlanes cryo)"
  shows "GetEndPlaneID_CryostatID geo cid =
           \<lparr>isValid = isValid cid, Cryostat = Cryostat cid, TPC = 0, Plane = 0\<rparr>"
  using assms
  by (simp add: GetEndPlaneID_CryostatID_def GetBeginPlaneID_CryostatID_def GetBeginTPCID_def
      PlaneID_in_def TPCID_in_def)

text \<open>
  Claim C8, at inputs where the source departs from it. The second cryostat of the
  small detector has no TPC, hence no plane. For its (valid) identifier the cryostat-level
  \<open>GetEndPlaneID\<close> returns the begin plane identifier still marked valid, while the
  sibling \<open>GetEndTPCID\<close> on the same cryostat and the TPC-level \<open>GetEndPlaneID\<close> on
  its missing first TPC both return identifiers marked invalid. The same happens for the
  identifier of a third cryostat, which the detector does not have.
\<close>

theorem GetEndPlaneID_CryostatID_not_marked_invalid:
  "CryostatPtr example_geometry \<lparr>isValid = True, Cryostat = 1\<rparr> =
     Some \<lparr>fTPCs = [], fOpDets = [OpDetGeo ''B'', OpDetGeo ''C'']\<rparr> \<and>
   GetEndPlaneID_CryostatID example_geometry \<lparr>isValid = True, Cryostat = 1\<rparr> =
     \<lparr>isValid = True, Cryostat = 1, TPC = 0, Plane = 0\<rparr> \<and>
   GetEndTPCID example_geometry \<lparr>isValid = True, Cryostat = 1\<rparr> =
     \<lparr>isValid = False, Cryostat = 1, TPC = 0\<rparr> \<and>
   GetEndPlaneID_TPCID (\<lambda>t. t) example_geometry \<lparr>isValid = True, Cryostat = 1, TPC = 0\<rparr> =
     \<lparr>isValid = False, Cryostat = 1, TPC = 0, Plane = 0\<rparr> \<and>
   CryostatPtr example_geometry \<lparr>isValid = True, Cryostat = 2\<rparr> = None \<and>
   GetEndPlaneID_CryostatID example_geometry \<lparr>isValid = True, Cryostat = 2\<rparr> =
     \<lparr>isValid = True, Cryostat = 2, TPC = 0, Plane = 0\<rparr> \<and>
   GetEndTPCID example_geometry \<lparr>isValid = True, Cryostat = 2\<rparr> =
     \<lparr>isValid = False, Cryostat = 2, TPC = 0\<rparr>"
  by (simp add: GetEndPlaneID_CryostatID_def GetEndTPCID_def GetEndPlaneID_TPCID_def
      GetBeginPlaneID_CryostatID_def GetBeginPlaneID_TPCID_def GetBeginTPCID_def
      PlaneID_in_def TPCID_in_def TPCID_of_def markInvalid_def CryostatGeo_MaxPlanes_def
      lookup_simps example_simps)

section \<open>Properties of the wire end points\<close>

lemma swap_all_entries:
  "swap_entry 2 (swap_entry 1 (swap_entry 0 ([a, b, c], [d, e, f]))) = ([d, e, f], [a, b, c])"
  "swap_entry 2 (swap_entry (Suc 0) (swap_entry 0 ([a, b, c], [d, e, f]))) =
     ([d, e, f], [a, b, c])"
  by (simp_all add: swap_entry_def numeral_2_eq_2)

text \<open>The three swaps exchange the two points: the function in terms of points.\<close>

lemma WireEndPoints_closed_form:
  "WireEndPoints geo wireid =
     (case WirePtr geo wireid of
        None \<Rightarrow> Inl WireOutOfRange
      | Some wire \<Rightarrow>
          let (s1, e1) = (if Z (GetEnd wire) < Z (GetStart wire)
                          then (GetEnd wire, GetStart wire) else (GetStart wire, GetEnd wire));
              (s2, e2) = (if Y e1 < Y s1 \<and> \<bar>Z e1 - Z s1\<bar> < 0.01 then (e1, s1) else (s1, e1))
          in Inr ([X s2, Y s2, Z s2], [X e2, Y e2, Z e2]))"
  by (simp add: WireEndPoints_def WireEndPoints_Segment_def swap_all_entries Let_def
      split: option.splits)

lemma WireEndPoints_are_the_end_points:
  assumes "WireEndPoints geo wireid = Inr (xyzStart, xyzEnd)"
  shows "\<exists>wire. WirePtr geo wireid = Some wire \<and>
     ((xyzStart = [X (GetStart wire), Y (GetStart wire), Z (GetStart wire)] \<and>
       xyzEnd = [X (GetEnd wire), Y (GetEnd wire), Z (GetEnd wire)]) \<or>
      (xyzStart = [X (GetEnd wire), Y (GetEnd wire), Z (GetEnd wire)] \<and>
       xyzEnd = [X (GetStart wire), Y (GetStart wire), Z (GetStart wire)]))"
  using assms
  by (auto simp: WireEndPoints_closed_form Let_def split: option.splits if_splits)

lemma WireEndPoints_returns:
  assumes "HasWire geo wireid"
  shows "\<exists>xyzStart xyzEnd. WireEndPoints geo wireid = Inr (xyzStart, xyzEnd)"
proof -
  from assms obtain wire where "WirePtr geo wireid = Some wire"
    by (auto simp: HasWire_iff)
  then show ?thesis
    by (simp add: WireEndPoints_closed_form Let_def split: prod.splits)
qed


lemma tilted_wire_end_points:
  "WireEndPoints tilted_wire_geometry (example_wireid 0 0 0 0) =
     Inr ([0, 1, 0.005], [0, 5, 0])"
  by (simp add: WireEndPoints_closed_form lookup_simps tilted_wire_geometry_def
      example_wireid_def)


text \<open>
  Within the tolerance the tie-break on y decides alone: the wire of the second hierarchy
  is returned with its end point higher in y and 0.005 lower in z than its start point.
\<close>

lemma WireEndPoints_tie_break_example:
  "WireEndPoints tilted_wire_geometry (example_wireid 0 0 0 0) = Inr ([0, 1, 0.005], [0, 5, 0]) \<and>
   [0, 5, 0 :: real] ! 2 < [0, 1, 0.005 :: real] ! 2"
  using tilted_wire_end_points by simp

section \<open>Properties of the optical detector numbering\<close>

text \<open>
  The table that the filling loop of \<open>OpDetFromCryo\<close> builds: every step adds the
  count of the one cryostat \<open>cid\<close>.
\<close>

lemma OpDetFromCryo_fill_upt:
  assumes cg: "GeometryCore_Cryostat geo cid = Inr cg"
  shows "n < length lowest \<Longrightarrow> i \<le> n \<Longrightarrow>
     \<exists>t. OpDetFromCryo_fill geo cid [i..<n] lowest = (None, t) \<and> length t = length lowest \<and>
         (\<forall>k. k \<le> i \<longrightarrow> t ! k = lowest ! k) \<and>
         (\<forall>k. i < k \<and> k \<le> n \<longrightarrow> t ! k = lowest ! i + of_nat (k - i) * NOpDet cg)"
proof (induction "n - i" arbitrary: i lowest)
  case 0
  then show ?case by auto
next
  case (Suc m)
  then have lt: "i < n" by simp
  let ?l = "lowest[i + 1 := lowest ! i + NOpDet cg]"
  from Suc lt have "m = n - Suc i" "n < length ?l" "Suc i \<le> n" by simp_all
  from Suc.hyps(1) [OF this]
  obtain t where t: "OpDetFromCryo_fill geo cid [Suc i..<n] ?l = (None, t)"
      "length t = length ?l"
      "\<forall>k. k \<le> Suc i \<longrightarrow> t ! k = ?l ! k"
      "\<forall>k. Suc i < k \<and> k \<le> n \<longrightarrow> t ! k = ?l ! Suc i + of_nat (k - Suc i) * NOpDet cg"
    by blast
  from lt Suc.prems have il: "i < length lowest" "i + 1 < length lowest" by simp_all
  have step: "OpDetFromCryo_fill geo cid [i..<n] lowest = OpDetFromCryo_fill geo cid [Suc i..<n] ?l"
    using lt il by (simp add: upt_conv_Cons vector_at_def cg)
  have a: "\<forall>k. k \<le> i \<longrightarrow> t ! k = lowest ! k"
    using t(3) by (auto simp: nth_list_update)
  have b: "t ! k = lowest ! i + of_nat (k - i) * NOpDet cg" if "i < k" "k \<le> n" for k
  proof (cases "k = Suc i")
    case True
    with t(3) il show ?thesis by simp
  next
    case False
    with that have "Suc i < k" by simp
    with t(4) that il have "t ! k = lowest ! i + NOpDet cg + of_nat (k - Suc i) * NOpDet cg"
      by simp
    moreover from \<open>Suc i < k\<close> have "of_nat (k - i) = (1 + of_nat (k - Suc i) :: uint)"
      by (metis Suc_diff_Suc Suc_lessD of_nat_Suc)
    ultimately show ?thesis by (simp add: algebra_simps)
  qed
  from step t(1,2) a b show ?case by auto
qed

text \<open>
  Hence the first call in a process, for a cryostat \<open>c\<close> and a detector \<open>o'\<close> that exist,
  returns \<open>c\<close> times the detector count of cryostat \<open>c\<close>, plus \<open>o'\<close>.
\<close>

lemma OpDetFromCryo_first_call:
  assumes "length geo < 2 ^ 32 - 1" and "c < Ncryostats geo" and "o' < NOpDet (geo ! unat c)"
  shows "fst (OpDetFromCryo geo OpDetFromCryo_statics_init o' c) =
           Inr (c * NOpDet (geo ! unat c) + o')"
proof -
  let ?cid = "\<lparr>isValid = True, Cryostat = c\<rparr>"
  define n where "n = length geo"
  define l0 where "l0 = (vector_resize [] (unat (Ncryostats geo + 1)))[0 := 0]"
  have un: "unat (Ncryostats geo) = n"
    using assms(1) by (simp add: Ncryostats_def unat_of_nat n_def)
  have un1: "unat (Ncryostats geo + 1) = n + 1"
    using assms(1) un by (simp add: unat_word_ariths n_def)
  have cg: "GeometryCore_Cryostat geo ?cid = Inr (geo ! unat c)"
    using assms(2) by (simp add: GeometryCore_Cryostat_def CryostatPtr_def HasCryostat_def)
  have cn: "unat c < n" using assms(2) un by (simp add: word_less_nat_alt)
  have l0: "length l0 = n + 1" "l0 ! 0 = 0" "0 < length (vector_resize [] (unat (Ncryostats geo + 1)))"
    by (simp_all add: l0_def un1 vector_resize_def)
  from OpDetFromCryo_fill_upt [OF cg, of n l0 0] l0
  obtain t where t: "OpDetFromCryo_fill geo ?cid [0..<n] l0 = (None, t)" "length t = n + 1"
     "\<forall>k. 0 < k \<and> k \<le> n \<longrightarrow> t ! k = of_nat k * NOpDet (geo ! unat c)"
     "t ! 0 = 0"
    by auto
  have tk: "t ! unat c = c * NOpDet (geo ! unat c)"
  proof (cases "unat c = 0")
    case True
    then have "c = 0" by (simp add: unat_eq_0)
    with t(4) True show ?thesis by simp
  next
    case False
    with t(3) cn show ?thesis by simp
  qed
  have "OpDetFromCryo geo OpDetFromCryo_statics_init o' c =
      (Inr (c * NOpDet (geo ! unat c) + o'),
       \<lparr>Loaded = True, LowestID = t, NCryo = Ncryostats geo\<rparr>)"
    using assms(2,3) cn l0(3) t(1,2) tk
    unfolding OpDetFromCryo_def OpDetFromCryo_statics_init_def Let_def
    by (simp add: un cg vector_at_def l0_def [symmetric])
  then show ?thesis by simp
qed

text \<open>
  The table of \<open>OpDetGeoFromOpDet\<close> holds the running sums of the detector counts,
  cryostat by cryostat, and its search inverts the numbering that these sums define, as
  long as the counts do not overflow the 32 bits of \<^verbatim>\<open>unsigned int\<close>.
\<close>

lemma cryostat_lookup:
  assumes "length geo < 2 ^ 32" and "j < length geo"
  shows "GeometryCore_Cryostat geo \<lparr>isValid = True, Cryostat = of_nat j\<rparr> = Inr (geo ! j)"
proof -
  from assms have u: "unat (of_nat j :: uint) = j" by (simp add: unat_of_nat)
  from assms have "(of_nat j :: uint) < of_nat (length geo)"
    by (simp add: word_less_nat_alt unat_of_nat)
  with u show ?thesis
    by (simp add: GeometryCore_Cryostat_def CryostatPtr_def HasCryostat_def Ncryostats_def)
qed

lemma OpDetGeoFromOpDet_fill_upt:
  assumes "length geo < 2 ^ 32" and "n \<le> length geo"
  shows "n < length lowest \<Longrightarrow> i \<le> n \<Longrightarrow>
     \<exists>t. OpDetGeoFromOpDet_fill geo [i..<n] lowest = (None, t) \<and> length t = length lowest \<and>
         (\<forall>k. k \<le> i \<longrightarrow> t ! k = lowest ! k) \<and>
         (\<forall>k. i < k \<and> k \<le> n \<longrightarrow> t ! k = lowest ! i + of_nat (\<Sum>j = i..<k. opdet_count geo j))"
proof (induction "n - i" arbitrary: i lowest)
  case 0
  then show ?case by auto
next
  case (Suc m)
  then have lt: "i < n" by simp
  with assms have cg: "GeometryCore_Cryostat geo \<lparr>isValid = True, Cryostat = of_nat i\<rparr> = Inr (geo ! i)"
    by (simp add: cryostat_lookup)
  let ?l = "lowest[i + 1 := lowest ! i + NOpDet (geo ! i)]"
  from Suc lt have "m = n - Suc i" "n < length ?l" "Suc i \<le> n" by simp_all
  from Suc.hyps(1) [OF this]
  obtain t where t: "OpDetGeoFromOpDet_fill geo [Suc i..<n] ?l = (None, t)"
      "length t = length ?l"
      "\<forall>k. k \<le> Suc i \<longrightarrow> t ! k = ?l ! k"
      "\<forall>k. Suc i < k \<and> k \<le> n \<longrightarrow>
         t ! k = ?l ! Suc i + of_nat (\<Sum>j = Suc i..<k. opdet_count geo j)"
    by blast
  from lt Suc.prems have il: "i < length lowest" "i + 1 < length lowest" by simp_all
  have step: "OpDetGeoFromOpDet_fill geo [i..<n] lowest = OpDetGeoFromOpDet_fill geo [Suc i..<n] ?l"
    using lt by (simp add: upt_conv_Cons cg)
  have a: "\<forall>k. k \<le> i \<longrightarrow> t ! k = lowest ! k"
    using t(3) by (auto simp: nth_list_update)
  have b: "t ! k = lowest ! i + of_nat (\<Sum>j = i..<k. opdet_count geo j)" if "i < k" "k \<le> n" for k
  proof (cases "k = Suc i")
    case True
    with t(3) il show ?thesis by (simp add: NOpDet_def opdet_count_def)
  next
    case False
    with that have k: "Suc i < k" by simp
    with t(4) that il have "t ! k = lowest ! i + NOpDet (geo ! i) +
        of_nat (\<Sum>j = Suc i..<k. opdet_count geo j)"
      by simp
    moreover from k have "(\<Sum>j = i..<k. opdet_count geo j) =
        opdet_count geo i + (\<Sum>j = Suc i..<k. opdet_count geo j)"
      by (simp add: sum.atLeast_Suc_lessThan)
    ultimately show ?thesis by (simp add: NOpDet_def opdet_count_def algebra_simps)
  qed
  from step t(1,2) a b show ?case by auto
qed


lemma word_of_nat_less_32:
  assumes "a < 2 ^ 32" and "b < 2 ^ 32"
  shows "(of_nat a :: uint) < of_nat b \<longleftrightarrow> a < b" and "(of_nat a :: uint) \<le> of_nat b \<longleftrightarrow> a \<le> b"
  using assms by (simp_all add: word_less_nat_alt word_le_nat_alt unat_of_nat)

lemma prefix_mono:
  "k \<le> m \<Longrightarrow> (\<Sum>j = 0..<k. opdet_count geo j) \<le> (\<Sum>j = 0..<m. opdet_count geo j)"
  by (rule sum_mono2) auto

lemma OpDetGeoFromOpDet_search_upt:
  assumes len: "length geo < 2 ^ 32"
    and total: "(\<Sum>j = 0..<length geo. opdet_count geo j) < 2 ^ 32"
    and c: "c < length geo" and o: "k < opdet_count geo c"
    and t: "\<forall>m. m \<le> length geo \<longrightarrow> t ! m = of_nat (\<Sum>j = 0..<m. opdet_count geo j)"
  shows "i \<le> c \<Longrightarrow>
     OpDetGeoFromOpDet_search geo t (of_nat ((\<Sum>j = 0..<c. opdet_count geo j) + k))
       [i..<length geo] = Inr (fOpDets (geo ! c) ! k)"
proof (induction "c - i" arbitrary: i)
  case 0
  then have ic: "i = c" by simp
  define P where "P = (\<Sum>j = 0..<c. opdet_count geo j)"
  define OpDet :: uint where "OpDet = of_nat (P + k)"
  have next_sum: "(\<Sum>j = 0..<Suc c. opdet_count geo j) = P + opdet_count geo c"
    by (simp add: P_def)
  from prefix_mono [of "Suc c" "length geo" geo] c total
  have b1: "P + opdet_count geo c < 2 ^ 32" unfolding next_sum by simp
  with o have b2: "P + k < 2 ^ 32" "P < 2 ^ 32" "k < 2 ^ 32" "opdet_count geo c < 2 ^ 32"
    by simp_all
  from t c have tc: "t ! c = of_nat P" by (simp add: P_def)
  from c have "Suc c \<le> length geo" by simp
  with t have "t ! Suc c = of_nat (\<Sum>j = 0..<Suc c. opdet_count geo j)" by blast
  then have tc1: "t ! (c + 1) = of_nat (P + opdet_count geo c)"
    unfolding next_sum by simp
  have c1: "t ! c \<le> OpDet"
    unfolding tc OpDet_def using word_of_nat_less_32(2) [OF b2(2) b2(1)] by simp
  have c2: "OpDet < t ! (c + 1)"
    unfolding tc1 OpDet_def using word_of_nat_less_32(1) [OF b2(1) b1] o by simp
  have diff: "OpDet - t ! c = of_nat k"
    unfolding tc OpDet_def by simp
  have "(of_nat k :: uint) < of_nat (opdet_count geo c)"
    using word_of_nat_less_32(1) [OF b2(3) b2(4)] o by simp
  moreover have "unat (of_nat k :: uint) = k" using b2(3) by (simp add: unat_of_nat)
  ultimately have od: "CryostatGeo_OpDet (geo ! c) (of_nat k) = Inr (fOpDets (geo ! c) ! k)"
    by (simp add: CryostatGeo_OpDet_def NOpDet_def opdet_count_def)
  from c have "[c..<length geo] = c # [Suc c..<length geo]" by (simp add: upt_conv_Cons)
  with c1 c2 diff od cryostat_lookup [OF len c] ic
  have "OpDetGeoFromOpDet_search geo t OpDet [i..<length geo] = Inr (fOpDets (geo ! c) ! k)"
    by simp
  then show ?case by (simp only: OpDet_def P_def)
next
  case (Suc m)
  then have ic: "i < c" by simp
  define P where "P = (\<Sum>j = 0..<c. opdet_count geo j)"
  define Q where "Q = (\<Sum>j = 0..<Suc i. opdet_count geo j)"
  define OpDet :: uint where "OpDet = of_nat (P + k)"
  from prefix_mono [of "Suc c" "length geo" geo] c total o
  have b: "P + k < 2 ^ 32" by (simp add: P_def)
  from prefix_mono [of "Suc i" c geo] ic have le: "Q \<le> P"
    by (simp add: P_def Q_def)
  with b have b': "Q < 2 ^ 32" by simp
  from ic c have "Suc i \<le> length geo" by simp
  with t have "t ! Suc i = of_nat Q" unfolding Q_def by blast
  then have ti1: "t ! (i + 1) = of_nat Q" by simp
  have ncond: "\<not> OpDet < t ! (i + 1)"
    unfolding ti1 OpDet_def using word_of_nat_less_32(1) [OF b b'] le by simp
  from ic c have "[i..<length geo] = i # [Suc i..<length geo]" by (simp add: upt_conv_Cons)
  moreover from Suc ic have "OpDetGeoFromOpDet_search geo t OpDet [Suc i..<length geo] =
      Inr (fOpDets (geo ! c) ! k)"
    by (simp add: OpDet_def P_def)
  ultimately have "OpDetGeoFromOpDet_search geo t OpDet [i..<length geo] =
      Inr (fOpDets (geo ! c) ! k)"
    using ncond by simp
  then show ?case by (simp only: OpDet_def P_def)
qed

text \<open>
  The first call in a process: the number made of the detector counts of the cryostats
  below \<open>c\<close>, plus \<open>k\<close>, is mapped to detector \<open>k\<close> of cryostat \<open>c\<close>.
\<close>

lemma OpDetGeoFromOpDet_first_call:
  assumes len: "length geo < 2 ^ 32"
    and total: "(\<Sum>j = 0..<length geo. opdet_count geo j) < 2 ^ 32"
    and c: "c < length geo" and o: "k < opdet_count geo c"
  shows "fst (OpDetGeoFromOpDet geo OpDetGeoFromOpDet_statics_init
            (of_nat ((\<Sum>j = 0..<c. opdet_count geo j) + k))) = Inr (fOpDets (geo ! c) ! k)"
proof -
  define n where "n = length geo"
  define l0 where "l0 = (vector_resize [] (Suc n))[0 := 0]"
  define OpDet :: uint where "OpDet = of_nat ((\<Sum>j = 0..<c. opdet_count geo j) + k)"
  have un: "unat (Ncryostats geo) = n"
    using len by (simp add: Ncryostats_def unat_of_nat n_def)
  have l0: "length l0 = n + 1" "l0 ! 0 = 0"
    by (simp_all add: l0_def vector_resize_def)
  from OpDetGeoFromOpDet_fill_upt [OF len, of n l0 0] l0
  obtain t where t: "OpDetGeoFromOpDet_fill geo [0..<n] l0 = (None, t)" "length t = n + 1"
     "\<forall>m. 0 < m \<and> m \<le> n \<longrightarrow> t ! m = of_nat (\<Sum>j = 0..<m. opdet_count geo j)"
     "t ! 0 = 0"
    by (auto simp: n_def)
  have tm: "\<forall>m. m \<le> length geo \<longrightarrow> t ! m = of_nat (\<Sum>j = 0..<m. opdet_count geo j)"
  proof (intro allI impI)
    fix m assume "m \<le> length geo"
    with t(3,4) show "t ! m = of_nat (\<Sum>j = 0..<m. opdet_count geo j)"
      by (cases "m = 0") (simp_all add: n_def)
  qed
  have s: "OpDetGeoFromOpDet_search geo t OpDet [0..<n] = Inr (fOpDets (geo ! c) ! k)"
    using OpDetGeoFromOpDet_search_upt [OF len total c o tm, of 0]
    by (simp only: OpDet_def n_def)
  have "OpDetGeoFromOpDet geo OpDetGeoFromOpDet_statics_init OpDet =
      (Inr (fOpDets (geo ! c) ! k), \<lparr>Loaded2 = True, LowestID2 = t, NCryo2 = n\<rparr>)"
    unfolding OpDetGeoFromOpDet_def OpDetGeoFromOpDet_statics_init_def Let_def
    by (simp add: un l0_def [symmetric] t(1) s)
  then show ?thesis by (simp only: OpDet_def fst_conv)
qed

text \<open>
  For the first cryostat the two functions agree: only from the second cryostat on does
  the table of \<open>OpDetFromCryo\<close> go wrong.
\<close>

lemma OpDet_roundtrip_first_cryostat:
  assumes "length geo < 2 ^ 32 - 1"
    and "(\<Sum>j = 0..<length geo. opdet_count geo j) < 2 ^ 32"
    and "0 < length geo" and "k < opdet_count geo 0"
  shows "fst (OpDetFromCryo geo OpDetFromCryo_statics_init (of_nat k) 0) = Inr (of_nat k) \<and>
         fst (OpDetGeoFromOpDet geo OpDetGeoFromOpDet_statics_init (of_nat k)) =
           Inr (fOpDets (geo ! 0) ! k)"
proof -
  from assms(1) have len: "length geo < 2 ^ 32" by simp
  from prefix_mono [of 1 "length geo" geo] assms(2,3,4)
  have k: "k < 2 ^ 32" "opdet_count geo 0 < 2 ^ 32" by simp_all
  from assms(3) len have c0: "(0::uint) < Ncryostats geo"
    using word_of_nat_less_32(1) [of 0 "length geo"] by (simp add: Ncryostats_def)
  from assms(4) k have "(of_nat k :: uint) < NOpDet (geo ! unat (0::uint))"
    using word_of_nat_less_32(1) [of k "opdet_count geo 0"]
    by (simp add: NOpDet_def opdet_count_def)
  from OpDetFromCryo_first_call [OF assms(1) c0 this]
  have a: "fst (OpDetFromCryo geo OpDetFromCryo_statics_init (of_nat k) 0) = Inr (of_nat k)"
    by simp
  from OpDetGeoFromOpDet_first_call [OF len assms(2,3,4)]
  have b: "fst (OpDetGeoFromOpDet geo OpDetGeoFromOpDet_statics_init (of_nat k)) =
      Inr (fOpDets (geo ! 0) ! k)"
    by simp
  from a b show ?thesis by simp
qed

text \<open>
  Claim C10, at an input where the source departs from it. In the small detector the
  first cryostat has one optical detector and the second has two, so detector 0 of
  cryostat 1 should get the number 1. Asked first about cryostat 1, \<open>OpDetFromCryo\<close>
  fills every slot of its table with the count of cryostat 1 and answers 2; the table of
  \<open>OpDetGeoFromOpDet\<close>, filled cryostat by cryostat, maps 2 to detector 1 of cryostat 1.
  The round trip yields detector \<open>C\<close> where detector \<open>B\<close> was asked for, and the two
  tables differ. When the first call is about cryostat 0 the same question is answered
  with 1: the answer depends on the history of calls.
\<close>

theorem OpDetFromCryo_table_uses_queried_cryostat:
  "fst (OpDetFromCryo example_geometry OpDetFromCryo_statics_init 0 1) = Inr 2 \<and>
   LowestID (snd (OpDetFromCryo example_geometry OpDetFromCryo_statics_init 0 1)) = [0, 2, 4] \<and>
   fst (OpDetGeoFromOpDet example_geometry OpDetGeoFromOpDet_statics_init 2) =
     Inr (OpDetGeo ''C'') \<and>
   LowestID2 (snd (OpDetGeoFromOpDet example_geometry OpDetGeoFromOpDet_statics_init 2)) =
     [0, 1, 3] \<and>
   CryostatGeo_OpDet (example_geometry ! 1) 0 = Inr (OpDetGeo ''B'') \<and>
   NOpDet (example_geometry ! 0) = 1 \<and>
   fst (OpDetFromCryo example_geometry
         (snd (OpDetFromCryo example_geometry OpDetFromCryo_statics_init 0 0)) 0 1) = Inr 1"
  by code_simp

text \<open>
  A first call about a cryostat that does not exist throws inside the filling loop,
  after \<^verbatim>\<open>Loaded\<close> has been set: the table stays all zero for every later call.
\<close>

lemma OpDetFromCryo_table_after_failed_first_call:
  "fst (OpDetFromCryo example_geometry OpDetFromCryo_statics_init 0 7) =
     Inl (CryostatDoesNotExist 7) \<and>
   LowestID (snd (OpDetFromCryo example_geometry OpDetFromCryo_statics_init 0 7)) = [0, 0, 0] \<and>
   fst (OpDetFromCryo example_geometry
         (snd (OpDetFromCryo example_geometry OpDetFromCryo_statics_init 0 7)) 1 1) = Inr 1"
  by code_simp

section \<open>Properties of the closest wire\<close>

lemma ClosestWireID_existing:
  assumes "PlaneGeo_HasWire p wireNo"
  shows "ClosestWireID p wireNo = WireID_in (fID p) wireNo"
  using assms by (simp add: ClosestWireID_def PlaneGeo_HasWire_def min_def)

lemma ClosestWireID_beyond:
  assumes "Nwires p \<le> wireNo"
  shows "Wire (ClosestWireID p wireNo) = Nwires p \<and>
         \<not> PlaneGeo_HasWire p (Wire (ClosestWireID p wireNo))"
  using assms by (simp add: ClosestWireID_def WireID_in_def PlaneGeo_HasWire_def min_def)

text \<open>
  On a plane with three wires (indices 0 to 2) \<open>ClosestWireID\<close> maps the wire number 5,
  and the wire number \<open>-1\<close> converted to unsigned, to the index 3, for which \<open>HasWire\<close> is
  false.
\<close>

lemma ClosestWireID_past_last_wire:
  "Nwires (example_plane 0 0 0) = 3 \<and>
   ClosestWireID (example_plane 0 0 0) 5 = example_wireid 0 0 0 3 \<and>
   ClosestWireID (example_plane 0 0 0) (- 1) = example_wireid 0 0 0 3 \<and>
   \<not> PlaneGeo_HasWire (example_plane 0 0 0) 3"
  by (simp add: ClosestWireID_def WireID_in_def PlaneGeo_HasWire_def Nwires_def example_simps)

section \<open>Properties of the nearest wire\<close>

text \<open>An integer from 0 to below the number of wires is the number of a wire of the plane.\<close>

lemma word_of_int_less_Nwires:
  fixes w :: uint
  assumes "0 \<le> k" and "k < uint w"
  shows "(of_int k :: uint) < w"
proof -
  have "uint w < 2 ^ 32" using uint_bounded [of w] by simp
  with assms have "uint (word_of_int k :: uint) = k"
    by (simp add: uint_word_of_int)
  with assms(2) show ?thesis by (simp add: word_less_def)
qed

text \<open>
  Half a pitch as a length on the wire coordinate axis is half a unit of the wire
  coordinate.
\<close>

lemma half_pitch_iff:
  fixes pitch :: real
  assumes "0 < pitch"
  shows "\<bar>c - of_int k * pitch\<bar> \<le> pitch / 2 \<longleftrightarrow> \<bar>c / pitch - of_int k\<bar> \<le> 1 / 2"
proof -
  have "c - of_int k * pitch = (c / pitch - of_int k) * pitch"
    using assms by (simp add: field_simps)
  then have "\<bar>c - of_int k * pitch\<bar> = \<bar>c / pitch - of_int k\<bar> * pitch"
    using assms by (simp add: abs_mult)
  then show ?thesis using assms by (simp add: field_simps)
qed

text \<open>
  Claim C6. On a plane with a positive pitch and at least one wire, \<open>NearestWireID\<close> works
  on the wire coordinate \<open>wc\<close> of the point, which is finite: the nominal index is \<open>wc\<close>
  rounded to the nearest integer, at most half a unit from \<open>wc\<close>; the corrected index is
  the nominal one clamped to the range from 0 to \<open>Nwires - 1\<close>, so it is the number of a
  wire that exists, and no existing wire number is closer to the nominal index. When the
  wire with the corrected index is within half a pitch of the projection of the point
  (which is to say that the corrected index is within half a unit of \<open>wc\<close>), the call
  returns the identifier of that wire on this plane. Otherwise it does not return the
  clamped index: the call signals \<^verbatim>\<open>InvalidWireError\<close>, carrying the nominal and the
  corrected index, and these two differ. In particular a nominal index that is in range
  is always returned.
\<close>

theorem NearestWireID_rounds_and_clamps:
  assumes "0 < WirePitch p" and "Nwires p \<noteq> 0"
  shows "let wc = PlaneCoordinate p pos / WirePitch p;
             nominal = round wc;
             corrected = max 0 (min nominal (uint (Nwires p) - 1));
             within_half_pitch =
               (\<bar>PlaneCoordinate p pos - of_int corrected * WirePitch p\<bar> \<le> WirePitch p / 2)
         in WireCoordinate p pos = Finite wc \<and>
            \<bar>wc - of_int nominal\<bar> \<le> 1 / 2 \<and>
            0 \<le> corrected \<and> corrected \<le> uint (Nwires p) - 1 \<and>
            PlaneGeo_HasWire p (of_int corrected) \<and>
            (\<forall>k. 0 \<le> k \<and> k \<le> uint (Nwires p) - 1 \<longrightarrow>
                 \<bar>nominal - corrected\<bar> \<le> \<bar>nominal - k\<bar>) \<and>
            (within_half_pitch \<longleftrightarrow> \<bar>wc - of_int corrected\<bar> \<le> 1 / 2) \<and>
            (within_half_pitch \<longrightarrow>
               NearestWireID p pos = Some (Inr (WireID_in (fID p) (of_int corrected)))) \<and>
            (\<not> within_half_pitch \<longrightarrow>
               NearestWireID p pos = Some (Inl (InvalidWireError nominal corrected)) \<and>
               nominal \<noteq> corrected) \<and>
            (nominal = corrected \<longrightarrow>
               NearestWireID p pos = Some (Inr (WireID_in (fID p) (of_int nominal))))"
proof -
  define wc where "wc = PlaneCoordinate p pos / WirePitch p"
  define nominal where "nominal = round wc"
  define corrected where "corrected = max 0 (min nominal (uint (Nwires p) - 1))"
  define within_half_pitch where "within_half_pitch \<longleftrightarrow>
    \<bar>PlaneCoordinate p pos - of_int corrected * WirePitch p\<bar> \<le> WirePitch p / 2"
  from assms(2) have "uint (Nwires p) \<noteq> 0" by (simp add: uint_0_iff)
  moreover have "0 \<le> uint (Nwires p)" by simp
  ultimately have pos_n: "0 < uint (Nwires p)" by linarith
  have coord: "WireCoordinate p pos = Finite wc"
    using assms(1) by (simp add: WireCoordinate_def ddiv_def wc_def)
  have near: "\<bar>wc - of_int nominal\<bar> \<le> 1 / 2"
    unfolding nominal_def using of_int_round_abs_le [of wc] by (simp add: abs_minus_commute)
  have lo: "0 \<le> corrected" by (simp add: corrected_def)
  have hi: "corrected \<le> uint (Nwires p) - 1"
    using pos_n by (simp add: corrected_def)
  from lo hi have "(of_int corrected :: uint) < Nwires p"
    by (intro word_of_int_less_Nwires) simp_all
  then have has: "PlaneGeo_HasWire p (of_int corrected)"
    by (simp add: PlaneGeo_HasWire_def)
  have closest: "\<forall>k. 0 \<le> k \<and> k \<le> uint (Nwires p) - 1 \<longrightarrow>
      \<bar>nominal - corrected\<bar> \<le> \<bar>nominal - k\<bar>"
    by (auto simp: corrected_def)
  have iff: "within_half_pitch \<longleftrightarrow> \<bar>wc - of_int corrected\<bar> \<le> 1 / 2"
    unfolding within_half_pitch_def wc_def using half_pitch_iff [OF assms(1)] by simp
  have res: "NearestWireID p pos =
      (if within_half_pitch then Some (Inr (WireID_in (fID p) (of_int corrected)))
       else Some (Inl (InvalidWireError nominal corrected)))"
    using assms(2) coord
    by (simp add: NearestWireID_def Let_def within_half_pitch_def corrected_def nominal_def)
  have same: "within_half_pitch" if "nominal = corrected"
    using that near iff by simp
  show ?thesis
    unfolding Let_def
    unfolding wc_def [symmetric] nominal_def [symmetric] corrected_def [symmetric]
      within_half_pitch_def [symmetric]
    using coord near lo hi has closest iff res same by auto
qed

theorem NearestWireID_rounds_and_clamps_witness:
  "0 < WirePitch (example_plane 0 0 0) \<and> Nwires (example_plane 0 0 0) \<noteq> 0 \<and>
   NearestWireID (example_plane 0 0 0) \<lparr>X = 0, Y = 0, Z = 2\<rparr> =
     Some (Inl (InvalidWireError 4 2)) \<and>
   NearestWireID (example_plane 0 0 0) \<lparr>X = 0, Y = 0, Z = 1 / 2\<rparr> =
     Some (Inr (example_wireid 0 0 0 1)) \<and>
   PlaneGeo_HasWire (example_plane 0 0 0) 2 \<and> \<not> PlaneGeo_HasWire (example_plane 0 0 0) 4"
  using NearestWireID_rounds_and_clamps [of "example_plane 0 0 0" "\<lparr>X = 0, Y = 0, Z = 2\<rparr>"]
    NearestWireID_rounds_and_clamps [of "example_plane 0 0 0" "\<lparr>X = 0, Y = 0, Z = 1 / 2\<rparr>"]
  by (simp add: Let_def WirePitch_def Nwires_def PlaneCoordinate_def PointSecondaryComponent_def
        dot_def vsub_def example_simps WireID_in_def PlaneGeo_HasWire_def)

section \<open>Properties of the frames\<close>

lemma normal_orthogonal:
  "dot (NormalDir d) (MainDir d) = 0" "dot (NormalDir d) (SecondaryDir d) = 0"
  by (simp_all add: NormalDir_def dot_def cross_def algebra_simps)

lemma dot_vadd: "dot (vadd u v) w = dot u w + dot v w"
  by (simp add: dot_def vadd_def algebra_simps)

lemma dot_vscale: "dot (vscale k u) w = k * dot u w"
  by (simp add: dot_def vscale_def algebra_simps)

lemma dot_commute: "dot u v = dot v u"
  by (simp add: dot_def algebra_simps)

lemma vsub_vadd: "vsub (vadd r v) r = v" "vadd r (vsub point r) = point"
  by (simp_all add: vsub_def vadd_def)

text \<open>The double cross products of an orthonormal pair give the pair back.\<close>

lemma cross_secondary_normal:
  assumes "orthonormal d"
  shows "cross (SecondaryDir d) (NormalDir d) = MainDir d"
proof -
  have "cross b (cross a b) = vsub (vscale (dot b b) a) (vscale (dot a b) b)" for a b
    by (simp add: dot_def cross_def vsub_def vscale_def algebra_simps)
  with assms show ?thesis by (simp add: orthonormal_def NormalDir_def vsub_def vscale_def)
qed

lemma cross_normal_main:
  assumes "orthonormal d"
  shows "cross (NormalDir d) (MainDir d) = SecondaryDir d"
proof -
  have "cross (cross a b) a = vsub (vscale (dot a a) b) (vscale (dot a b) a)" for a b
    by (simp add: dot_def cross_def vsub_def vscale_def algebra_simps)
  with assms show ?thesis by (simp add: orthonormal_def NormalDir_def vsub_def vscale_def)
qed

text \<open>
  Cramer's rule for three vectors: the triple product of the basis times \<open>u\<close> is the
  sum of the basis vectors weighted by the triple products in which \<open>u\<close> replaces them.
\<close>

lemma triple_product_expansion:
  "vscale (dot a (cross b n)) u =
     vadd (vscale (dot u (cross b n)) a)
       (vadd (vscale (dot u (cross n a)) b) (vscale (dot u (cross a b)) n))"
  by (simp add: dot_def cross_def vadd_def vscale_def algebra_simps)

lemma orthonormal_expansion:
  assumes "orthonormal d"
  shows "vadd (vscale (dot u (NormalDir d)) (NormalDir d))
          (vadd (vscale (dot u (MainDir d)) (MainDir d))
                (vscale (dot u (SecondaryDir d)) (SecondaryDir d))) = u"
proof -
  let ?a = "MainDir d" and ?b = "SecondaryDir d" and ?n = "NormalDir d"
  have "vscale 1 u =
      vadd (vscale (dot u ?a) ?a) (vadd (vscale (dot u ?b) ?b) (vscale (dot u ?n) ?n))"
    using triple_product_expansion [of ?a ?b ?n u] assms
    by (simp add: cross_secondary_normal cross_normal_main NormalDir_def [symmetric]
        orthonormal_def)
  then show ?thesis
    by (simp add: vscale_def vadd_def algebra_simps)
qed

lemma Decomposer_roundtrip:
  assumes "orthonormal d"
  shows "Decomposer_ComposePoint d (Decomposer_DecomposePoint d point) = point"
  using orthonormal_expansion [OF assms, of "vsub point (ReferencePoint d)"]
  by (simp add: Decomposer_ComposePoint_def Decomposer_DecomposePoint_def
      PointNormalComponent_def PointMainComponent_def PointSecondaryComponent_def vsub_vadd)

lemma secondary_of_composed:
  assumes "orthonormal d"
  shows "PointSecondaryComponent d (Decomposer_ComposePoint d (distance, (a, b))) = b"
  using assms
  by (simp add: PointSecondaryComponent_def Decomposer_ComposePoint_def vsub_vadd dot_vadd
      dot_vscale normal_orthogonal orthonormal_def)

lemma example_frames_orthonormal:
  "orthonormal example_frame" "orthonormal example_box_frame"
  by (simp_all add: orthonormal_def dot_def example_frame_def example_box_frame_def)

text \<open>
  Claim C2. On a plane whose two frames are orthonormal, as the frames of every built
  plane are, composing the decomposition of a point gives the point back, for the wire
  frame and for the width/depth frame alike. In exact arithmetic the two points are
  equal; the rounding of the machine numbers is outside this model.
\<close>

theorem ComposePoint_DecomposePoint:
  assumes "orthonormal (fDecompWire p)" and "orthonormal (fDecompFrame p)"
  shows "ComposePoint p (DecomposePoint p point) = point \<and>
         ComposePoint_WidthDepth p (DecomposePointWidthDepth p point) = point"
  using assms
  by (simp add: ComposePoint_def DecomposePoint_def ComposePoint_WidthDepth_def
      DecomposePointWidthDepth_def Decomposer_roundtrip)

theorem ComposePoint_DecomposePoint_witness:
  "orthonormal (fDecompWire (example_plane 0 0 0)) \<and>
   orthonormal (fDecompFrame (example_plane 0 0 0)) \<and>
   DecomposePointWidthDepth (example_plane 0 0 0) \<lparr>X = 1, Y = 2, Z = 3\<rparr> = (1, (16 / 5, - 1 / 10)) \<and>
   ComposePoint (example_plane 0 0 0) (DecomposePoint (example_plane 0 0 0) \<lparr>X = 1, Y = 2, Z = 3\<rparr>) =
     \<lparr>X = 1, Y = 2, Z = 3\<rparr> \<and>
   ComposePoint_WidthDepth (example_plane 0 0 0)
       (DecomposePointWidthDepth (example_plane 0 0 0) \<lparr>X = 1, Y = 2, Z = 3\<rparr>) =
     \<lparr>X = 1, Y = 2, Z = 3\<rparr>"
proof -
  have o: "orthonormal (fDecompWire (example_plane 0 0 0))"
    "orthonormal (fDecompFrame (example_plane 0 0 0))"
    by (simp_all add: example_plane_def example_frames_orthonormal)
  have d: "DecomposePointWidthDepth (example_plane 0 0 0) \<lparr>X = 1, Y = 2, Z = 3\<rparr> =
      (1, (16 / 5, - 1 / 10))"
    by (simp add: DecomposePointWidthDepth_def Decomposer_DecomposePoint_def
        PointNormalComponent_def PointMainComponent_def PointSecondaryComponent_def NormalDir_def
        dot_def cross_def vsub_def example_plane_def example_box_frame_def)
  from ComposePoint_DecomposePoint [OF o, of "\<lparr>X = 1, Y = 2, Z = 3\<rparr>"] o d
  show ?thesis by simp
qed

text \<open>
  Claim C7, as amended. On a plane with an orthonormal wire frame and a non-zero pitch,
  let the centre of wire \<open>n\<close> lie \<open>n\<close> pitches from the reference point of the frame along
  the secondary axis, wherever it is along the wire direction and the normal (so it is on
  a built plane, the reference point being the centre of wire 0). Then \<open>PlaneCoordinate\<close> of that
  centre is \<open>n\<close> times the pitch, and \<open>WireCoordinate\<close> is \<open>n\<close> itself: the wire index, in
  units of the pitch.
\<close>

theorem WireCoordinate_at_wire_center:
  assumes "orthonormal (fDecompWire p)" and "WirePitch p \<noteq> 0" and "n < length (fWire p)"
    and "GetCenter (fWire p ! n) = ComposePoint p (distance, (a, real n * WirePitch p))"
  shows "PlaneCoordinate p (GetCenter (fWire p ! n)) = real n * WirePitch p \<and>
         WireCoordinate p (GetCenter (fWire p ! n)) = Finite (real n)"
proof -
  from assms(1,4) have c: "PlaneCoordinate p (GetCenter (fWire p ! n)) = real n * WirePitch p"
    by (simp add: PlaneCoordinate_def ComposePoint_def secondary_of_composed)
  with assms(2) show ?thesis
    by (simp add: WireCoordinate_def ddiv_def)
qed

theorem WireCoordinate_at_wire_center_witness:
  "orthonormal (fDecompWire (example_plane 0 0 0)) \<and> WirePitch (example_plane 0 0 0) = 1 / 2 \<and>
   GetCenter (fWire (example_plane 0 0 0) ! 2) = \<lparr>X = 0, Y = 0, Z = 1\<rparr> \<and>
   PlaneCoordinate (example_plane 0 0 0) \<lparr>X = 0, Y = 0, Z = 1\<rparr> = 1 \<and>
   WireCoordinate (example_plane 0 0 0) \<lparr>X = 0, Y = 0, Z = 1\<rparr> = Finite 2"
proof -
  have o: "orthonormal (fDecompWire (example_plane 0 0 0))"
    by (simp add: example_plane_def example_frames_orthonormal)
  have w: "WirePitch (example_plane 0 0 0) = 1 / 2"
    by (simp add: WirePitch_def example_plane_def)
  then have nz: "WirePitch (example_plane 0 0 0) \<noteq> 0" by simp
  have l: "2 < length (fWire (example_plane 0 0 0))"
    by (simp add: example_plane_def)
  have g: "GetCenter (fWire (example_plane 0 0 0) ! 2) = \<lparr>X = 0, Y = 0, Z = 1\<rparr>"
    by (simp add: example_plane_def example_wire_def)
  have c: "GetCenter (fWire (example_plane 0 0 0) ! 2) =
      ComposePoint (example_plane 0 0 0) (0, (0, real 2 * WirePitch (example_plane 0 0 0)))"
    unfolding g w
    by (simp add: ComposePoint_def Decomposer_ComposePoint_def NormalDir_def cross_def
        vadd_def vscale_def example_plane_def example_frame_def)
  from WireCoordinate_at_wire_center [OF o nz l c] g w o show ?thesis by simp
qed

text \<open>
  The claim as first stated fails: at the centre of wire 2 of the example plane, whose
  pitch is one half, \<open>WireCoordinate\<close> is 2 and not 2 times the pitch, which is 1.
\<close>

theorem WireCoordinate_index_times_pitch_counterexample:
  "GetCenter (fWire (example_plane 0 0 0) ! 2) = \<lparr>X = 0, Y = 0, Z = 1\<rparr> \<and>
   WireCoordinate (example_plane 0 0 0) \<lparr>X = 0, Y = 0, Z = 1\<rparr> = Finite 2 \<and>
   real 2 * WirePitch (example_plane 0 0 0) = 1 \<and>
   WireCoordinate (example_plane 0 0 0) \<lparr>X = 0, Y = 0, Z = 1\<rparr> \<noteq>
     Finite (real 2 * WirePitch (example_plane 0 0 0))"
  by (simp add: WireCoordinate_def PlaneCoordinate_def PointSecondaryComponent_def WirePitch_def
      ddiv_def dot_def vsub_def example_plane_def example_wire_def example_frame_def)

end
